(* ===== verification/Prelude.thy ===== *)
theory Prelude
  imports Complex_Main "HOL-Library.Multiset"
begin

text \<open>
  Shared vocabulary of the MiniType development (src/script.js).
  JavaScript strings are modelled as \<open>char list\<close>. HOL's \<open>char\<close> has 8 bits, so
  the model covers strings whose UTF-16 code units are all below 256, one HOL
  character per code unit. This holds for the word bank, and the program compares
  strings per code unit. Timestamps from \<open>performance.now()\<close> and
  \<open>Math.random()\<close> values are exact rationals, so IEEE rounding of intermediate
  results is not modelled. The scores are JavaScript numbers, which may also be
  infinite or NaN (theory \<open>Js_Builtins\<close>).
  The collection \<open>js_simps\<close> gathers the evaluation equations of the modelled
  JavaScript built-ins; the list lemmas below are used by several components.
\<close>

named_theorems js_simps "evaluation equations of the modelled JavaScript built-ins"

type_synonym js_string = string
type_synonym timestamp = rat

text \<open>A source of \<open>Math.random()\<close> results: the \<open>i\<close>-th call of one handler run.\<close>

type_synonym random_source = "nat \<Rightarrow> rat"

definition valid_random :: "random_source \<Rightarrow> bool" where
  "valid_random rnd \<longleftrightarrow> (\<forall>i. 0 \<le> rnd i \<and> rnd i < 1)"

subsection \<open>List lemmas shared by the components\<close>

lemma length_filter_zip_le:
  "length (filter P (zip xs ys)) \<le> min (length xs) (length ys)"
  by (metis length_filter_le length_zip)

lemma filter_zip_same [simp]:
  "filter (\<lambda>(a, b). a = b) (zip xs xs) = zip xs xs"
  by (induction xs) auto

lemma dropWhile_rev_idem:
  "dropWhile P (rev (rev (dropWhile P (rev xs)))) = dropWhile P (rev xs)"
  by (cases "dropWhile P (rev xs)") (auto dest: dropWhile_eq_Cons_conv[THEN iffD1])


lemma length_dropWhile_le: "length (dropWhile P xs) \<le> length xs"
  by (induction xs) auto

lemma dropWhile_not_shorter:
  assumes "dropWhile (\<lambda>c. \<not> P c) s \<noteq> []"
  shows "length (dropWhile P (dropWhile (\<lambda>c. \<not> P c) s)) < length s"
proof -
  obtain c r where cr: "dropWhile (\<lambda>c. \<not> P c) s = c # r" and "P c"
    using assms by (cases "dropWhile (\<lambda>c. \<not> P c) s") (auto dest: dropWhile_eq_Cons_conv[THEN iffD1])
  then have "dropWhile P (c # r) = dropWhile P r" by simp
  moreover have "length (c # r) \<le> length s"
    using cr length_dropWhile_le by metis
  ultimately show ?thesis
    using length_dropWhile_le[of P r] cr by simp
qed

lemma those_map_Some [simp]: "those (map Some xs) = Some xs"
  by (induction xs) auto

lemma filter_zip_full:
  "length (filter (\<lambda>(a, b). a = b) (zip xs ys)) = length xs \<longleftrightarrow> take (length xs) ys = xs"
proof (induction xs arbitrary: ys)
  case (Cons x xs)
  show ?case
  proof (cases ys)
    case (Cons y ys')
    have "length (filter (\<lambda>(a, b). a = b) (zip xs ys')) \<le> length xs"
      using length_filter_zip_le[of _ xs ys'] by simp
    then show ?thesis using Cons.IH[of ys'] by (auto simp: Cons)
  qed simp
qed simp

end
