(* ===== verification/Js_Builtins.thy ===== *)
theory Js_Builtins
  imports Prelude
begin

text \<open>
  The JavaScript built-ins that src/script.js calls, written after the ECMAScript
  specification of each: \<open>String.prototype.trimEnd\<close>, \<open>trim\<close>, \<open>split\<close> with the
  regular expression \<open>/\s+/\<close> and with a one-character separator,
  \<open>Array.prototype.join\<close>, \<open>splice(start, 1)\<close>, indexing with \<open>s[i] || ''\<close>,
  \<open>Math.round\<close>, \<open>Number.prototype.toFixed\<close> and the conversion of an integral
  number to a string. White space is the set of \<open>\s\<close> and of \<open>trim\<close>
  (WhiteSpace and LineTerminator) restricted to the code units a HOL \<open>char\<close> holds.
  The theory proves the round trips and bounds the program relies on.
\<close>

section \<open>Strings\<close>

definition is_js_space :: "char \<Rightarrow> bool" where
  "is_js_space c \<longleftrightarrow> of_char c \<in> {9, 10, 11, 12, 13, 32, 160 :: nat}"

definition trimEnd :: "js_string \<Rightarrow> js_string" where
  "trimEnd s = rev (dropWhile is_js_space (rev s))"

definition trim :: "js_string \<Rightarrow> js_string" where
  "trim s = trimEnd (dropWhile is_js_space s)"

text \<open>\<open>s.split(/\s+/)\<close>: the fields between maximal runs of white space; a leading
  or trailing run yields an empty first or last field, and the empty string gives
  one empty field.\<close>

function split_ws :: "js_string \<Rightarrow> js_string list" where
  "split_ws s =
     (let w = takeWhile (\<lambda>c. \<not> is_js_space c) s;
          r = dropWhile (\<lambda>c. \<not> is_js_space c) s
      in if r = [] then [w] else w # split_ws (dropWhile is_js_space r))"
  by pat_completeness auto

termination split_ws
  by (relation "measure length") (auto simp: dropWhile_not_shorter)

declare split_ws.simps [simp del]

text \<open>\<open>s.split(sep)\<close> for a one-character separator.\<close>

fun js_split :: "char \<Rightarrow> js_string \<Rightarrow> js_string list" where
  "js_split c [] = [[]]"
| "js_split c (x # xs) =
     (if x = c then [] # js_split c xs
      else (case js_split c xs of [] \<Rightarrow> [[x]] | w # ws \<Rightarrow> (x # w) # ws))"

text \<open>\<open>arr.join(sep)\<close> on an array of strings.\<close>

fun js_join :: "js_string \<Rightarrow> js_string list \<Rightarrow> js_string" where
  "js_join sep [] = []"
| "js_join sep [w] = w"
| "js_join sep (w # v # ws) = w @ sep @ js_join sep (v # ws)"

text \<open>\<open>s[i] || ''\<close>: the one-code-unit string at \<open>i\<close>, or the empty string where
  \<open>s[i]\<close> is \<open>undefined\<close>.\<close>

definition js_char_at :: "js_string \<Rightarrow> nat \<Rightarrow> js_string" where
  "js_char_at s i = (if i < length s then [s ! i] else [])"

section \<open>Arrays\<close>

text \<open>\<open>arr.splice(start, 1)\<close>: the removed elements and the array left behind, with
  the specification's clamping of a negative or too large start.\<close>

definition js_splice1 :: "int \<Rightarrow> 'a list \<Rightarrow> 'a list \<times> 'a list" where
  "js_splice1 start xs =
     (let len = int (length xs);
          actual = nat (if start < 0 then max (len + start) 0 else min start len);
          cnt = min 1 (length xs - actual)
      in (take cnt (drop actual xs), take actual xs @ drop (actual + cnt) xs))"

text \<open>\<open>arr[0]\<close>, \<open>None\<close> standing for \<open>undefined\<close>.\<close>

definition js_first :: "'a list \<Rightarrow> 'a option" where
  "js_first xs = (case xs of [] \<Rightarrow> None | x # _ \<Rightarrow> Some x)"

section \<open>Numbers\<close>

text \<open>\<open>Math.round\<close>: the nearest integer, ties towards \<open>+\<infinity>\<close>.\<close>

definition js_round :: "rat \<Rightarrow> int" where
  "js_round x = floor (x + 1 / 2)"

fun nat_digits :: "nat \<Rightarrow> js_string" where
  "nat_digits n =
     (if n < 10 then [char_of (48 + n)] else nat_digits (n div 10) @ [char_of (48 + n mod 10)])"

declare nat_digits.simps [simp del]

text \<open>\<open>String(n)\<close> for an integral number below \<open>10^21\<close>.\<close>

definition int_to_js :: "int \<Rightarrow> js_string" where
  "int_to_js i = (if i < 0 then CHR ''-'' # nat_digits (nat (- i)) else nat_digits (nat i))"

text \<open>\<open>x.toFixed(f)\<close> for \<open>|x| < 10^21\<close>: the integer \<open>n\<close> nearest to
  \<open>x * 10^f\<close> (the larger one on a tie), padded with zeros to \<open>f + 1\<close> digits, with
  a point before the last \<open>f\<close> of them; a negative \<open>x\<close> gets a minus sign.\<close>

definition fixed_digits :: "nat \<Rightarrow> rat \<Rightarrow> js_string" where
  "fixed_digits f x =
     (let m = nat_digits (nat (floor (x * 10 ^ f + 1 / 2)));
          m' = replicate (f + 1 - length m) (CHR ''0'') @ m;
          k = length m'
      in if f = 0 then m else take (k - f) m' @ CHR ''.'' # drop (k - f) m')"

definition to_fixed :: "nat \<Rightarrow> rat \<Rightarrow> js_string" where
  "to_fixed f x = (if x < 0 then CHR ''-'' # fixed_digits f (- x) else fixed_digits f x)"

text \<open>The JavaScript Number values the scorer can compute: finite values (exact
  rationals), the two infinities and NaN. Division follows ECMAScript: a finite
  non-zero quotient, \<open>\<plusminus>Infinity\<close> for a non-zero numerator over 0, and NaN for
  \<open>0 / 0\<close>. The script only divides by values it has compared with 0, so no signed
  zero arises.\<close>

datatype js_number = Num rat | PosInf | NegInf | NaN

definition js_div :: "rat \<Rightarrow> rat \<Rightarrow> js_number" where
  "js_div a b = (if b \<noteq> 0 then Num (a / b) else if 0 < a then PosInf else if a < 0 then NegInf else NaN)"

fun js_mul_num :: "js_number \<Rightarrow> rat \<Rightarrow> js_number" where
  "js_mul_num (Num a) b = Num (a * b)"
| "js_mul_num PosInf b = (if 0 < b then PosInf else if b < 0 then NegInf else NaN)"
| "js_mul_num NegInf b = (if 0 < b then NegInf else if b < 0 then PosInf else NaN)"
| "js_mul_num NaN b = NaN"

text \<open>\<open>n.toFixed(f)\<close> on a Number: a non-finite value prints as \<open>Number::toString\<close>
  does.\<close>

fun num_to_fixed :: "nat \<Rightarrow> js_number \<Rightarrow> js_string" where
  "num_to_fixed f (Num x) = to_fixed f x"
| "num_to_fixed f PosInf = ''Infinity''"
| "num_to_fixed f NegInf = ''-Infinity''"
| "num_to_fixed f NaN = ''NaN''"

text \<open>\<open>String(Math.round(n))\<close>: \<open>Math.round\<close> keeps the non-finite values.\<close>

fun round_text :: "js_number \<Rightarrow> js_string" where
  "round_text (Num x) = int_to_js (js_round x)"
| "round_text PosInf = ''Infinity''"
| "round_text NegInf = ''-Infinity''"
| "round_text NaN = ''NaN''"

text \<open>A reference reader of decimal digit strings, for the round trip of the
  number printer.\<close>

fun dec_value :: "js_string \<Rightarrow> nat" where
  "dec_value [] = 0"
| "dec_value (c # cs) = (of_char c - 48) * 10 ^ length cs + dec_value cs"

text \<open>A word of the word bank: non-empty, without white space.\<close>

definition plain_word :: "js_string \<Rightarrow> bool" where
  "plain_word w \<longleftrightarrow> w \<noteq> [] \<and> (\<forall>x \<in> set w. \<not> is_js_space x)"

section \<open>Properties of the built-ins\<close>

lemma is_js_space_simps [simp, js_simps]:
  "is_js_space (CHR '' '')"
  "is_js_space (CHR 0x0A)"
  "\<not> is_js_space (CHR ''a'')"
  by (simp_all add: is_js_space_def)

subsection \<open>Trailing white space\<close>

lemma trimEnd_decomp: "s = trimEnd s @ rev (takeWhile is_js_space (rev s))"
  by (simp add: trimEnd_def flip: rev_append) 

lemma trimEnd_last:
  "trimEnd s = [] \<or> \<not> is_js_space (last (trimEnd s))"
  by (cases "dropWhile is_js_space (rev s)") (auto simp: trimEnd_def dest: dropWhile_eq_Cons_conv[THEN iffD1])

lemma trimEnd_no_trailing:
  "s = [] \<or> \<not> is_js_space (last s) \<Longrightarrow> trimEnd s = s"
  by (cases s rule: rev_cases) (auto simp: trimEnd_def)

lemma trimEnd_append_space:
  "(\<forall>x \<in> set sp. is_js_space x) \<Longrightarrow> trimEnd (s @ sp) = trimEnd s"
  unfolding trimEnd_def by (subst rev_append, subst dropWhile_append2) auto

lemma trimEnd_take: "take (length (trimEnd s)) s = trimEnd s"
  using trimEnd_decomp[of s] by (metis append_eq_conv_conj)

lemma length_trimEnd_le: "length (trimEnd s) \<le> length s"
  using length_dropWhile_le[of is_js_space "rev s"] by (simp add: trimEnd_def)

subsection \<open>Splitting and joining\<close>

lemma js_split_nonempty: "js_split c xs \<noteq> []"
  by (induction xs) (auto split: list.split)

lemma js_split_append_field:
  assumes "c \<notin> set w"
  shows "js_split c (w @ r) = (w @ hd (js_split c r)) # tl (js_split c r)"
  using assms
proof (induction w)
  case Nil
  then show ?case using js_split_nonempty[of c r] by (cases "js_split c r") auto
next
  case (Cons x w)
  then show ?case by (auto split: list.split)
qed

lemma js_split_join:
  assumes "ws \<noteq> []" and "\<forall>w \<in> set ws. c \<notin> set w"
  shows "js_split c (js_join [c] ws) = ws"
  using assms
proof (induction "[c]" ws rule: js_join.induct)
  case (2 w)
  then show ?case using js_split_append_field[of c w "[]"] by simp
next
  case (3 w v ws)
  then show ?case using js_split_append_field[of c w "c # js_join [c] (v # ws)"] by simp
qed simp

lemma join_plain_last:
  assumes "ws \<noteq> []" and "\<forall>w \<in> set ws. plain_word w"
  shows "js_join '' '' ws \<noteq> [] \<and> \<not> is_js_space (last (js_join '' '' ws))"
  using assms
proof (induction "'' ''" ws rule: js_join.induct)
  case (2 w)
  then show ?case by (simp add: plain_word_def)
next
  case (3 w v ws)
  then show ?case by simp
qed simp

lemma trimEnd_join_plain:
  "ws \<noteq> [] \<Longrightarrow> \<forall>w \<in> set ws. plain_word w \<Longrightarrow> trimEnd (js_join '' '' ws) = js_join '' '' ws"
  using join_plain_last trimEnd_no_trailing by blast
lemma plain_word_no_space: "plain_word w \<Longrightarrow> CHR '' '' \<notin> set w"
  unfolding plain_word_def using is_js_space_simps(1) by blast

subsection \<open>Splicing and random indices\<close>

lemma js_splice1_nth:
  "i < length xs \<Longrightarrow> js_splice1 (int i) xs = ([xs ! i], take i xs @ drop (Suc i) xs)"
  by (simp add: js_splice1_def Let_def min_def Cons_nth_drop_Suc[symmetric])

lemma js_splice1_mset:
  "mset (fst (js_splice1 k xs)) + mset (snd (js_splice1 k xs)) = mset xs"
proof -
  have "mset (take c (drop a xs)) + mset (take a xs @ drop (a + c) xs) = mset xs" for a c
    by (metis add.commute append_take_drop_id drop_drop mset_append union_assoc)
  then show ?thesis by (simp add: js_splice1_def Let_def)
qed

lemma mset_remove_nth:
  "k < length xs \<Longrightarrow> mset xs = add_mset (xs ! k) (mset (take k xs @ drop (Suc k) xs))"
  by (metis js_splice1_mset js_splice1_nth fst_conv snd_conv mset.simps add_mset_add_single union_commute)

lemma random_index_bounds:
  assumes "0 \<le> r" "r < 1" "0 < n"
  shows "0 \<le> floor (r * of_nat n) \<and> floor (r * of_nat n) < int n"
proof
  show "0 \<le> floor (r * of_nat n)" using assms by simp
  have "r * of_nat n < of_nat n" using assms by simp
  then show "floor (r * of_nat n) < int n"
    by (simp add: floor_less_iff)
qed

subsection \<open>Printing numbers\<close>

lemma dec_value_snoc: "dec_value (cs @ [c]) = 10 * dec_value cs + (of_char c - 48)"
  by (induction cs) (simp_all add: algebra_simps)

lemma dec_value_nat_digits: "dec_value (nat_digits n) = n"
proof (induction n rule: nat_digits.induct)
  case (1 n)
  show ?case
  proof (cases "n < 10")
    case True
    then show ?thesis by (simp add: nat_digits.simps)
  next
    case False
    then have "dec_value (nat_digits n) = 10 * (n div 10) + n mod 10"
      using "1.IH" by (simp add: nat_digits.simps[of n] dec_value_snoc)
    then show ?thesis by simp
  qed
qed

lemma nat_digits_digits: "\<forall>c \<in> set (nat_digits n). (48::nat) \<le> of_char c \<and> of_char c \<le> (57::nat)"
proof (induction n rule: nat_digits.induct)
  case (1 n)
  then show ?case by (subst nat_digits.simps) auto
qed
lemma dec_value_zeros [simp]: "dec_value (replicate k (CHR ''0'') @ m) = dec_value m"
  by (induction k) simp_all

lemma nat_digits_ne [simp]: "nat_digits n \<noteq> []"
  by (subst nat_digits.simps) simp

lemma fixed_digits_shape:
  assumes "0 < f"
  shows "\<exists>ip fp. fixed_digits f x = ip @ CHR ''.'' # fp \<and> ip \<noteq> [] \<and> length fp = f
     \<and> (\<forall>c \<in> set (ip @ fp). (48::nat) \<le> of_char c \<and> of_char c \<le> (57::nat))
     \<and> dec_value (ip @ fp) = nat (floor (x * 10 ^ f + 1 / 2))"
proof -
  define m where "m = nat_digits (nat (floor (x * 10 ^ f + 1 / 2)))"
  define m' where "m' = replicate (f + 1 - length m) (CHR ''0'') @ m"
  have k: "f + 1 \<le> length m'" by (simp add: m'_def)
  have fx: "fixed_digits f x = take (length m' - f) m' @ CHR ''.'' # drop (length m' - f) m'"
    using assms by (simp add: fixed_digits_def m_def m'_def Let_def)
  have "\<forall>c \<in> set m'. (48::nat) \<le> of_char c \<and> of_char c \<le> (57::nat)"
    using nat_digits_digits by (auto simp: m'_def m_def)
  moreover have "dec_value m' = nat (floor (x * 10 ^ f + 1 / 2))"
    by (simp add: m'_def m_def dec_value_nat_digits)
  ultimately show ?thesis using fx k
    by (intro exI[of _ "take (length m' - f) m'"] exI[of _ "drop (length m' - f) m'"]) auto
qed

lemma js_split_join_empty: "js_split CHR '' '' (js_join '' '' []) = [[]]"
  by simp

lemma int_to_js_nonneg: "0 \<le> i \<Longrightarrow> int_to_js i = nat_digits (nat i)"
  by (simp add: int_to_js_def)

lemma js_div_nonzero [simp]: "b \<noteq> 0 \<Longrightarrow> js_div a b = Num (a / b)"
  by (simp add: js_div_def)

lemma to_fixed_1_100: "to_fixed (Suc 0) 100 = ''100.0''"
  by code_simp

end
