(* ===== verification/Word_Source.thy ===== *)
theory Word_Source
  imports Js_Builtins
begin

text \<open>
  The word source of src/script.js: the constant \<open>WORD_COUNT\<close> (line 3), the word
  bank \<open>WORD_BANK\<close> (lines 13--17, a template literal that is trimmed and split on
  \<open>/\s+/\<close>) and \<open>pickWords\<close> (lines 24--32), which draws \<open>WORD_COUNT\<close> words
  from a copy of the bank by \<open>Math.floor(Math.random() * copy.length)\<close> and
  \<open>splice\<close>. The random numbers are the argument \<open>rnd\<close>: \<open>rnd i\<close> is the value
  of \<open>Math.random()\<close> in iteration \<open>i\<close>. The selected array may hold
  \<open>undefined\<close> (\<open>None\<close>) where \<open>splice\<close> removed nothing.
\<close>

definition WORD_COUNT :: nat where
  "WORD_COUNT = 10"

definition WORD_BANK_literal :: js_string where
  "WORD_BANK_literal =
     [CHR 0x0A] @
     ''    time person year way day thing man world life hand part child eye woman place work week case point'' @
     [CHR 0x0A] @
     ''    government company system program question work night water room mother area money story fact month lot'' @
     [CHR 0x0A] @
     ''    right study book job word business issue side kind head house service friend family school state'' @
     [CHR 0x0A] @ ''  ''"

definition WORD_BANK :: "js_string list" where
  "WORD_BANK = split_ws (trim WORD_BANK_literal)"

text \<open>The \<open>for\<close> loop of \<open>pickWords\<close>, iteration \<open>i\<close>, with the shrinking copy
  and the array of selected entries.\<close>

function pick_loop ::
  "random_source \<Rightarrow> nat \<Rightarrow> js_string list \<Rightarrow> js_string option list \<Rightarrow> js_string option list"
where
  "pick_loop rnd i copy selected =
     (if i < WORD_COUNT then
        (case js_splice1 (floor (rnd i * of_nat (length copy))) copy of
           (removed, rest) \<Rightarrow> pick_loop rnd (Suc i) rest (selected @ [js_first removed]))
      else selected)"
  by pat_completeness auto

termination pick_loop
  by (relation "measure (\<lambda>(rnd, i, copy, selected). WORD_COUNT - i)") (auto simp: WORD_COUNT_def)

declare pick_loop.simps [simp del]

definition pickWords :: "random_source \<Rightarrow> js_string option list" where
  "pickWords rnd = pick_loop rnd 0 WORD_BANK []"

section \<open>The word bank\<close>

lemma WORD_BANK_eq: "WORD_BANK = [''time'', ''person'', ''year'', ''way'', ''day'', ''thing'', ''man'', ''world'', ''life'', ''hand'', ''part'', ''child'', ''eye'', ''woman'', ''place'', ''work'', ''week'', ''case'', ''point'',
 ''government'', ''company'', ''system'', ''program'', ''question'', ''work'', ''night'', ''water'', ''room'', ''mother'', ''area'', ''money'', ''story'', ''fact'', ''month'', ''lot'',
 ''right'', ''study'', ''book'', ''job'', ''word'', ''business'', ''issue'', ''side'', ''kind'', ''head'', ''house'', ''service'', ''friend'', ''family'', ''school'', ''state'']"
  unfolding WORD_BANK_def WORD_BANK_literal_def by code_simp

lemma length_WORD_BANK: "length WORD_BANK = 51"
  by (simp add: WORD_BANK_eq)

lemma WORD_BANK_plain: "\<forall>w \<in> set WORD_BANK. plain_word w"
  unfolding WORD_BANK_eq plain_word_def is_js_space_def by code_simp

section \<open>Drawing words\<close>

lemma pick_step_valid:
  assumes "valid_random rnd" and "0 < length copy"
  obtains k where "floor (rnd i * of_nat (length copy)) = int k" and "k < length copy"
proof -
  have "0 \<le> rnd i" "rnd i < 1" using assms(1) by (auto simp: valid_random_def)
  then have "0 \<le> floor (rnd i * of_nat (length copy)) \<and> floor (rnd i * of_nat (length copy)) < int (length copy)"
    using assms(2) by (rule random_index_bounds)
  then show ?thesis using that by (metis nonneg_int_cases of_nat_less_iff)
qed

lemma pick_loop_draws:
  assumes "valid_random rnd" and "WORD_COUNT - i \<le> length copy"
  shows "\<exists>ws. pick_loop rnd i copy sel = sel @ map Some ws \<and> length ws = WORD_COUNT - i
              \<and> mset ws \<subseteq># mset copy"
  using assms
proof (induction rnd i copy sel rule: pick_loop.induct)
  case (1 rnd i copy sel)
  show ?case
  proof (cases "i < WORD_COUNT")
    case False
    then show ?thesis by (simp add: pick_loop.simps[of rnd i copy sel])
  next
    case True
    with "1.prems"(2) have "0 < length copy" by linarith
    with "1.prems"(1) obtain k where k: "floor (rnd i * of_nat (length copy)) = int k" "k < length copy"
      by (rule pick_step_valid)
    define rest where "rest = take k copy @ drop (Suc k) copy"
    have sp: "js_splice1 (floor (rnd i * of_nat (length copy))) copy = ([copy ! k], rest)"
      using k by (simp add: js_splice1_nth rest_def)
    have "WORD_COUNT - Suc i \<le> length rest"
      using k "1.prems"(2) True by (simp add: rest_def)
    then obtain ws where ws: "pick_loop rnd (Suc i) rest (sel @ [Some (copy ! k)]) = (sel @ [Some (copy ! k)]) @ map Some ws"
        "length ws = WORD_COUNT - Suc i" "mset ws \<subseteq># mset rest"
      using "1.IH"[OF True sp[symmetric]] "1.prems"(1) by (auto simp: js_first_def)
    have "mset (copy ! k # ws) \<subseteq># mset copy"
      using ws(3) mset_remove_nth[OF k(2)] by (simp add: rest_def)
    moreover have "pick_loop rnd i copy sel = sel @ map Some (copy ! k # ws)"
      using True sp ws(1) by (simp add: pick_loop.simps[of rnd i copy sel] js_first_def)
    moreover have "length (copy ! k # ws) = WORD_COUNT - i"
      using ws(2) True by simp
    ultimately show ?thesis by blast
  qed
qed

lemma pickWords_words:
  assumes "valid_random rnd"
  shows "\<exists>ws. those (pickWords rnd) = Some ws \<and> length ws = WORD_COUNT \<and> (\<forall>w \<in> set ws. plain_word w)"
proof -
  have "WORD_COUNT - 0 \<le> length WORD_BANK" by (simp add: length_WORD_BANK WORD_COUNT_def)
  from pick_loop_draws[OF assms this, of "[]"] obtain ws where
    "pickWords rnd = map Some ws" "length ws = WORD_COUNT" "mset ws \<subseteq># mset WORD_BANK"
    by (auto simp: pickWords_def)
  moreover from this have "set ws \<subseteq> set WORD_BANK" by (metis mset_subset_eqD set_mset_mset subsetI)
  ultimately show ?thesis using WORD_BANK_plain by auto
qed

text \<open>C23: With Math.random() values in [0, 1), pickWords returns WORD_COUNT defined words
  drawn without replacement from the word bank: their multiset is contained in the
  bank's.\<close>

theorem pickWords_draws:
  assumes "valid_random rnd"
  shows "\<exists>ws. those (pickWords rnd) = Some ws \<and> length ws = WORD_COUNT \<and> mset ws \<subseteq># mset WORD_BANK"
proof -
  have "WORD_COUNT - 0 \<le> length WORD_BANK" by (simp add: length_WORD_BANK WORD_COUNT_def)
  from pick_loop_draws[OF assms this, of "[]"] show ?thesis by (auto simp: pickWords_def)
qed

text \<open>C24: The draw loop of pickWords terminates after WORD_COUNT - i iterations from index
  i, whatever the random values: it appends exactly that many entries to the selection.\<close>

theorem pick_loop_iterations:
  "length (pick_loop rnd i copy sel) = length sel + (WORD_COUNT - i)"
proof (induction rnd i copy sel rule: pick_loop.induct)
  case (1 rnd i copy sel)
  show ?case
  proof (cases "i < WORD_COUNT")
    case True
    obtain removed rest where sp: "js_splice1 (floor (rnd i * of_nat (length copy))) copy = (removed, rest)"
      by (cases "js_splice1 (floor (rnd i * of_nat (length copy))) copy")
    with True "1.IH" show ?thesis by (simp add: pick_loop.simps[of rnd i] Suc_diff_Suc)
  next
    case False
    then show ?thesis by (simp add: pick_loop.simps[of rnd i])
  qed
qed

lemma valid_random_const0: "valid_random (\<lambda>_. 0)"
  by (simp add: valid_random_def)

theorem pickWords_draws_witness:
  "valid_random (\<lambda>_. 0) \<and> (\<exists>ws. those (pickWords (\<lambda>_. 0)) = Some ws \<and> length ws = WORD_COUNT \<and> mset ws \<subseteq># mset WORD_BANK)"
  using pickWords_draws[OF valid_random_const0] valid_random_const0 by blast

text \<open>C25: pickWords can return the same word twice for valid random values, because the word
  bank lists 'work' twice; the specification's distinctness of the drawn words does not
  hold.\<close>

theorem pickWords_may_repeat:
  "\<exists>rnd. valid_random rnd \<and> (\<exists>ws. those (pickWords rnd) = Some ws \<and> \<not> distinct ws)"
proof -
  define rnd :: random_source where "rnd i = (if i = 0 then 15/51 else if i = 1 then 23/50 else 0)" for i
  have "valid_random rnd" by (simp add: valid_random_def rnd_def)
  moreover have "those (pickWords rnd) = Some [''work'', ''work'', ''time'', ''person'', ''year'', ''way'', ''day'', ''thing'', ''man'', ''world'']"
    by (simp add: pickWords_def WORD_BANK_eq rnd_def pick_loop.simps WORD_COUNT_def js_splice1_def js_first_def)
  ultimately show ?thesis by fastforce
qed

end
