(* ===== verification/Scoring.thy ===== *)
theory Scoring
  imports Word_Source
begin

text \<open>
  The scorer of src/script.js: \<open>countCorrectChars\<close> (lines 71--78), a \<open>for\<close> loop
  over \<open>min(typed.length, targetText.length)\<close> positions, and the arithmetic and
  display formatting of \<open>finishTest\<close> (lines 100--110): elapsed seconds, words per
  minute against the constant \<open>WORD_COUNT\<close>, accuracy in percent, and the strings
  written to \<open>#time\<close>, \<open>#wpm\<close> and \<open>#acc\<close>. The state change of
  \<open>finishTest\<close> (its \<open>ended\<close> guard and latch) is in theory \<open>Session\<close>.
  \<open>startTime\<close> is \<open>null\<close> (\<open>None\<close>) or a timestamp; in the subtraction
  \<open>endTime - startTime\<close> JavaScript converts \<open>null\<close> to \<open>0\<close>.
\<close>

function count_loop :: "js_string \<Rightarrow> js_string \<Rightarrow> nat \<Rightarrow> nat \<Rightarrow> nat \<Rightarrow> nat" where
  "count_loop targetText typed len i correct =
     (if i < len
      then count_loop targetText typed len (Suc i)
             (if typed ! i = targetText ! i then Suc correct else correct)
      else correct)"
  by pat_completeness auto

termination count_loop
  by (relation "measure (\<lambda>(t, typed, len, i, c). len - i)") auto

declare count_loop.simps [simp del]

definition countCorrectChars :: "js_string \<Rightarrow> js_string \<Rightarrow> nat" where
  "countCorrectChars targetText typed =
     count_loop targetText typed (min (length typed) (length targetText)) 0 0"

text \<open>The specification's count (section 4.4): positions below both lengths where
  the typed and the target character agree.\<close>

definition correct_count_spec :: "js_string \<Rightarrow> js_string \<Rightarrow> nat" where
  "correct_count_spec typed target = length (filter (\<lambda>(a, b). a = b) (zip typed target))"

definition js_time :: "timestamp option \<Rightarrow> rat" where
  "js_time t = (case t of None \<Rightarrow> 0 | Some x \<Rightarrow> x)"

record result =
  elapsedSec :: rat
  wpm :: js_number
  accuracy :: js_number

definition elapsed_of :: "timestamp option \<Rightarrow> timestamp \<Rightarrow> rat" where
  "elapsed_of startTime endTime = (endTime - js_time startTime) / 1000"

definition wpm_of :: "rat \<Rightarrow> js_number" where
  "wpm_of elapsed =
     (let minutes = elapsed / 60 in if minutes > 0 then js_div (of_nat WORD_COUNT) minutes else Num 0)"

definition accuracy_of :: "js_string \<Rightarrow> js_string \<Rightarrow> js_number" where
  "accuracy_of targetText typed =
     (if length typed > 0
      then js_mul_num (js_div (of_nat (countCorrectChars targetText typed)) (of_nat (length typed))) 100
      else Num 0)"

definition score :: "js_string \<Rightarrow> timestamp option \<Rightarrow> timestamp \<Rightarrow> js_string \<Rightarrow> result" where
  "score targetText startTime endTime typed =
     (let e = elapsed_of startTime endTime
      in \<lparr>elapsedSec = e, wpm = wpm_of e, accuracy = accuracy_of targetText typed\<rparr>)"

definition time_text_of :: "result \<Rightarrow> js_string" where
  "time_text_of r = to_fixed 2 (elapsedSec r)"

definition wpm_text_of :: "result \<Rightarrow> js_string" where
  "wpm_text_of r = round_text (wpm r)"

definition acc_text_of :: "result \<Rightarrow> js_string" where
  "acc_text_of r = num_to_fixed 1 (accuracy r) @ ''%''"

section \<open>Properties of the scorer\<close>

lemma wpm_of_nonneg: "0 \<le> e \<Longrightarrow> \<exists>w. wpm_of e = Num w \<and> 0 \<le> w"
  by (simp add: wpm_of_def Let_def)

lemma count_loop_spec:
  assumes "i \<le> len" and "len = min (length typed) (length t)"
  shows "count_loop t typed len i c = c + length (filter (\<lambda>(a, b). a = b) (drop i (zip typed t)))"
  using assms
proof (induction t typed len i c rule: count_loop.induct)
  case (1 t typed len i c)
  show ?case
  proof (cases "i < len")
    case True
    then have "i < length (zip typed t)" using "1.prems"(2) by simp
    then have "drop i (zip typed t) = (typed ! i, t ! i) # drop (Suc i) (zip typed t)"
      by (simp flip: Cons_nth_drop_Suc)
    moreover have "count_loop t typed len i c =
        count_loop t typed len (Suc i) (if typed ! i = t ! i then Suc c else c)"
      using True by (simp add: count_loop.simps[of t typed len i c])
    ultimately show ?thesis
      using True "1.IH" "1.prems" by simp
  next
    case False
    have "length (zip typed t) = len" using "1.prems"(2) by simp
    with False have "drop i (zip typed t) = []" by simp
    with False show ?thesis by (simp add: count_loop.simps[of t typed len i c])
  qed
qed

text \<open>C17: The loop of countCorrectChars computes the specification's count: the number of
  positions below both lengths where typed and target characters agree.\<close>

theorem countCorrectChars_eq_spec:
  "countCorrectChars targetText typed = correct_count_spec typed targetText"
  by (simp add: countCorrectChars_def correct_count_spec_def count_loop_spec)

lemma countCorrectChars_filter:
  "countCorrectChars t typed = length (filter (\<lambda>(a, b). a = b) (zip typed t))"
  by (simp add: countCorrectChars_def count_loop_spec)

lemma countCorrectChars_le: "countCorrectChars t typed \<le> min (length typed) (length t)"
  using length_filter_zip_le by (simp add: countCorrectChars_filter)

lemma countCorrectChars_same: "countCorrectChars t t = length t"
  by (simp add: countCorrectChars_filter)

lemma accuracy_of_same: "t \<noteq> [] \<Longrightarrow> accuracy_of t t = Num 100"
  by (simp add: accuracy_of_def countCorrectChars_same)


text \<open>C18: The accuracy finishTest computes is always a finite JavaScript number between 0
  and 100, never NaN: the typed.length > 0 guard excludes 0 / 0 and the count never
  exceeds the typed length.\<close>

theorem accuracy_bounds: "\<exists>a. accuracy_of t typed = Num a \<and> 0 \<le> a \<and> a \<le> 100"
proof (cases "typed = []")
  case False
  have "of_nat (countCorrectChars t typed) \<le> (of_nat (length typed) :: rat)"
    using countCorrectChars_le[of t typed] by simp
  then show ?thesis using False by (simp add: accuracy_of_def divide_le_eq)
qed (simp add: accuracy_of_def)

text \<open>C20: For an empty typed text the accuracy is the number 0; without the typed.length > 0
  guard JavaScript would compute (0 / 0) * 100 = NaN.\<close>

theorem accuracy_empty: "accuracy_of t [] = Num 0"
  by (simp add: accuracy_of_def)

text \<open>C21: A zero (or negative) elapsed time gives the rate 0; without the minutes > 0 guard
  JavaScript would compute 10 / 0 = Infinity.\<close>

theorem wpm_of_nonpositive: "elapsed \<le> 0 \<Longrightarrow> wpm_of elapsed = Num 0"
  by (simp add: wpm_of_def)

lemma wpm_of_positive: "0 < elapsed \<Longrightarrow> wpm_of elapsed = Num (600 / elapsed)"
  by (simp add: wpm_of_def WORD_COUNT_def field_simps)

text \<open>C19: The accuracy finishTest computes is exactly the number 100 if and only if the
  typed text is non-empty and a prefix of the target: every typed character matches and
  none lies past the target.\<close>

theorem accuracy_100_iff_prefix:
  "accuracy_of T typed = Num 100 \<longleftrightarrow> typed \<noteq> [] \<and> take (length typed) T = typed"
proof (cases "typed = []")
  case False
  then have "accuracy_of T typed = Num 100 \<longleftrightarrow> countCorrectChars T typed = length typed"
    by (simp add: accuracy_of_def divide_eq_eq)
  then show ?thesis using False by (simp add: countCorrectChars_filter filter_zip_full)
qed (simp add: accuracy_of_def)

text \<open>C22: For a positive elapsed time the words-per-minute text that finishTest writes reads
  back as Math.round(WORD_COUNT per elapsed minute) = Math.round(600 / elapsed): the
  rate, its rounding and its printing compose as the specification's display rule says.\<close>

theorem wpm_display_value:
  assumes "0 < elapsed_of st t"
  shows "dec_value (wpm_text_of (score T st t typed)) = nat (js_round (600 / elapsed_of st t))"
proof -
  have "0 \<le> js_round (600 / elapsed_of st t)" using assms by (simp add: js_round_def)
  then show ?thesis using assms
    by (simp add: wpm_text_of_def score_def Let_def wpm_of_positive int_to_js_nonneg dec_value_nat_digits)
qed

end
