(* ===== verification/Render.thy ===== *)
theory Render
  imports Js_Builtins
begin

text \<open>
  The rendering surface of src/script.js: \<open>renderWords\<close> (lines 34--55) fills the
  \<open>#words\<close> element with one \<open>span.word\<close> per word, each holding one
  \<open>span.char\<close> per character and, except after the last word, one \<open>span.char\<close>
  holding a space; \<open>updateVisuals\<close> (lines 80--95) walks the \<open>.char\<close> spans in
  document order and gives the \<open>i\<close>-th one the class \<open>pending\<close>, \<open>correct\<close> or
  \<open>incorrect\<close> by comparing \<open>typed[i] || ''\<close> with \<open>targetText[i] || ''\<close>.
  The content of \<open>#words\<close> is a list of word spans, a word span the list of its
  character spans; \<open>querySelectorAll('.char')\<close> is their concatenation.
  The abstract classification of the specification (section 4.3) is \<open>classify\<close>;
  the lemmas show that the rendered characters spell the target text and that
  \<open>updateVisuals\<close> refines \<open>classify\<close>, recomputed from scratch on every call.
\<close>

datatype char_class = Pending | Correct | Incorrect

record char_span =
  span_text :: js_string
  span_class :: char_class

type_synonym word_span = "char_span list"

definition pending_span :: "js_string \<Rightarrow> char_span" where
  "pending_span t = \<lparr>span_text = t, span_class = Pending\<rparr>"

text \<open>The body of \<open>words.forEach((w, wi) => ...)\<close>: the character spans of
  \<open>w\<close> and the space span when \<open>wi < words.length - 1\<close>.\<close>

definition render_word :: "nat \<Rightarrow> nat \<Rightarrow> js_string \<Rightarrow> word_span" where
  "render_word n wi w =
     map (\<lambda>c. pending_span [c]) w @
     (if int wi < int n - 1 then [pending_span '' ''] else [])"

definition renderWords :: "js_string list \<Rightarrow> word_span list" where
  "renderWords words = map (\<lambda>(wi, w). render_word (length words) wi w) (enumerate 0 words)"

definition char_nodes :: "word_span list \<Rightarrow> char_span list" where
  "char_nodes el = concat el"

text \<open>The loop body of \<open>updateVisuals\<close> for the \<open>i\<close>-th \<open>.char\<close> span.\<close>

definition char_class_at :: "js_string \<Rightarrow> js_string \<Rightarrow> nat \<Rightarrow> char_class" where
  "char_class_at targetText typed i =
     (let expected = js_char_at targetText i; got = js_char_at typed i
      in if got = [] then Pending else if got = expected then Correct else Incorrect)"

fun restyle_chars :: "js_string \<Rightarrow> js_string \<Rightarrow> nat \<Rightarrow> char_span list \<Rightarrow> char_span list" where
  "restyle_chars t typed i [] = []"
| "restyle_chars t typed i (sp # sps) =
     sp\<lparr>span_class := char_class_at t typed i\<rparr> # restyle_chars t typed (Suc i) sps"

fun restyle_words :: "js_string \<Rightarrow> js_string \<Rightarrow> nat \<Rightarrow> word_span list \<Rightarrow> word_span list" where
  "restyle_words t typed i [] = []"
| "restyle_words t typed i (w # ws) =
     restyle_chars t typed i w # restyle_words t typed (i + length w) ws"

definition updateVisuals :: "js_string \<Rightarrow> js_string \<Rightarrow> word_span list \<Rightarrow> word_span list" where
  "updateVisuals targetText typed el = restyle_words targetText typed 0 el"

text \<open>The specification's classification of position \<open>i < length target\<close>.\<close>

definition classify :: "js_string \<Rightarrow> js_string \<Rightarrow> nat \<Rightarrow> char_class" where
  "classify target typed i =
     (if length typed \<le> i then Pending else if typed ! i = target ! i then Correct else Incorrect)"

section \<open>Properties of rendering and classification\<close>

lemma restyle_chars_append:
  "restyle_chars t ty i (xs @ ys) = restyle_chars t ty i xs @ restyle_chars t ty (i + length xs) ys"
  by (induction xs arbitrary: i) auto

lemma restyle_words_concat:
  "concat (restyle_words t ty i ws) = restyle_chars t ty i (concat ws)"
  by (induction ws arbitrary: i) (auto simp: restyle_chars_append)

lemma char_nodes_updateVisuals:
  "char_nodes (updateVisuals t ty el) = restyle_chars t ty 0 (char_nodes el)"
  by (simp add: updateVisuals_def char_nodes_def restyle_words_concat)

lemma restyle_chars_text:
  "map span_text (restyle_chars t ty i sps) = map span_text sps"
  by (induction sps arbitrary: i) auto

lemma restyle_chars_class:
  "map span_class (restyle_chars t ty i sps) = map (char_class_at t ty) [i..<i + length sps]"
  by (induction sps arbitrary: i) (auto simp: upt_rec)

lemma restyle_chars_restyle:
  "restyle_chars t ty i (restyle_chars t ty' i sps) = restyle_chars t ty i sps"
  by (induction sps arbitrary: i) auto

lemma restyle_words_restyle:
  "restyle_words t ty i (restyle_words t ty' i ws) = restyle_words t ty i ws"
proof (induction ws arbitrary: i)
  case (Cons w ws)
  have "length (restyle_chars t ty' i w) = length w"
    using restyle_chars_text[of t ty' i w] by (metis length_map)
  then show ?case using Cons by (simp add: restyle_chars_restyle)
qed simp

lemma char_class_at_classify:
  "i < length target \<Longrightarrow> char_class_at target typed i = classify target typed i"
  by (simp add: char_class_at_def classify_def js_char_at_def Let_def)

lemma render_enum_text:
  "map span_text (concat (map (\<lambda>(wi, w). render_word (k + length ws) wi w) (enumerate k ws)))
     = map (\<lambda>c. [c]) (js_join '' '' ws)"
proof (induction ws arbitrary: k)
  case Nil
  then show ?case by simp
next
  case (Cons w ws)
  show ?case
  proof (cases ws)
    case Nil
    then show ?thesis by (simp add: render_word_def pending_span_def comp_def)
  next
    case tail: (Cons v vs)
    have "k + length (w # ws) = Suc k + length ws" by simp
    then show ?thesis
      using Cons.IH[of "Suc k"] tail by (simp add: render_word_def pending_span_def comp_def)
  qed
qed

lemma renderWords_text:
  "map span_text (char_nodes (renderWords ws)) = map (\<lambda>c. [c]) (js_join '' '' ws)"
  using render_enum_text[of 0 ws] by (simp add: renderWords_def char_nodes_def)

lemma renderWords_pending:
  "\<forall>sp \<in> set (char_nodes (renderWords ws)). span_class sp = Pending"
  by (auto simp: renderWords_def char_nodes_def render_word_def pending_span_def in_set_enumerate_eq)

lemma length_restyle_chars [simp]: "length (restyle_chars t ty i sps) = length sps"
  by (induction sps arbitrary: i) auto

text \<open>C27: updateVisuals recomputes every class from scratch: its result does not depend on
  the classes an earlier call left, so classifying the same text twice gives the same
  page.\<close>

theorem updateVisuals_from_scratch:
  "updateVisuals t typed (updateVisuals t typed' el) = updateVisuals t typed el"
  by (simp add: updateVisuals_def restyle_words_restyle)

lemma restyle_words_text:
  "map (map span_text) (restyle_words t typed i el) = map (map span_text) el"
  by (induction el arbitrary: i) (auto simp: restyle_chars_text)

lemma char_nodes_text: "map span_text (char_nodes el) = concat (map (map span_text) el)"
  by (simp add: char_nodes_def map_concat)

lemma length_renderWords [simp]: "length (renderWords ws) = length ws"
  by (simp add: renderWords_def)

lemma renderWords_nth:
  "i < length ws \<Longrightarrow> map span_text (renderWords ws ! i)
     = map (\<lambda>c. [c]) (ws ! i) @ (if Suc i < length ws then ['' ''] else [])"
  by (auto simp: renderWords_def render_word_def pending_span_def nth_enumerate_eq)

text \<open>C28: updateVisuals changes only classes: the text of every span and the word structure
  of the page are unchanged.\<close>

theorem updateVisuals_keeps_text:
  "map (map span_text) (updateVisuals t typed el) = map (map span_text) el"
  by (simp add: updateVisuals_def restyle_words_text)
lemma updateVisuals_text_nodes:
  "map span_text (char_nodes (updateVisuals t ty el)) = map span_text (char_nodes el)"
  by (simp add: char_nodes_updateVisuals restyle_chars_text)

lemma updateVisuals_classes:
  "length (char_nodes el) = length t \<Longrightarrow>
   map span_class (char_nodes (updateVisuals t ty el)) = map (classify t ty) [0..<length t]"
  by (simp add: char_nodes_updateVisuals restyle_chars_class char_class_at_classify)


text \<open>C26: updateVisuals applied to the spans that renderWords builds for the target words
  gives each character span the specification's classification of the typed text at
  that position of the joined target.\<close>

theorem rendered_classification:
  "map span_class (char_nodes (updateVisuals (js_join '' '' ws) typed (renderWords ws)))
     = map (classify (js_join '' '' ws) typed) [0..<length (js_join '' '' ws)]"
proof -
  have "length (char_nodes (renderWords ws)) = length (js_join '' '' ws)"
    using renderWords_text[of ws] by (metis length_map)
  then show ?thesis by (rule updateVisuals_classes)
qed

end
