(* ===== verification/Session.thy ===== *)
theory Session
  imports Scoring Render
begin

text \<open>
  The session controller of src/script.js: the module state (\<open>targetWords\<close>,
  \<open>targetText\<close>, \<open>startTime\<close>, \<open>ended\<close>, lines 19--22) together with the parts of
  the page the handlers write (\<open>input.value\<close>, the content of \<open>#words\<close>,
  \<open>stats.hidden\<close> and the texts of \<open>#time\<close>, \<open>#wpm\<close>, \<open>#acc\<close>) form the record
  \<open>page\<close>. Each handler is a function on it: \<open>startNewTest\<close> (lines 57--69, also
  the restart button's click handler), \<open>finishTest\<close> (lines 97--111), the
  \<open>input\<close> handler (lines 116--127), the \<open>keydown\<close> handler (lines 130--140) and
  the \<open>paste\<close> handler (line 114), which cancels the paste so that the input's
  value does not change. The events of the input surface are the datatype
  \<open>event\<close>; \<open>step\<close> applies one. An edit of the input first changes its value
  (the browser does that) and then runs the \<open>input\<close> handler.
  \<open>performance.now()\<close> is read by the handler: \<open>t_start\<close> is what the reads of
  lines 119 and 124 return, \<open>t_end\<close> what the read of line 100 returns.
  The thrown \<open>TypeError\<close> of \<open>renderWords\<close> on an \<open>undefined\<close> word is the error
  value of \<open>startNewTest\<close>.
\<close>

record page =
  targetWords :: "js_string list"
  targetText :: js_string
  startTime :: "timestamp option"
  ended :: bool
  input_value :: js_string
  words_el :: "word_span list"
  stats_hidden :: bool
  time_text :: js_string
  wpm_text :: js_string
  acc_text :: js_string

datatype js_error = TypeError

text \<open>\<open>startTime\<close> as a JavaScript condition: \<open>null\<close> and \<open>0\<close> are falsy.\<close>

definition js_truthy_time :: "timestamp option \<Rightarrow> bool" where
  "js_truthy_time t = (case t of None \<Rightarrow> False | Some x \<Rightarrow> x \<noteq> 0)"

definition startNewTest :: "random_source \<Rightarrow> page \<Rightarrow> js_error + page" where
  "startNewTest rnd s =
     (case those (pickWords rnd) of
        None \<Rightarrow> Inl TypeError
      | Some ws \<Rightarrow> Inr (s\<lparr>targetWords := ws, targetText := js_join '' '' ws,
                         words_el := renderWords ws, input_value := [],
                         startTime := None, ended := False, stats_hidden := True,
                         time_text := ''0.00'', wpm_text := ''0'', acc_text := ''0%''\<rparr>))"

definition finishTest :: "js_string \<Rightarrow> timestamp \<Rightarrow> page \<Rightarrow> page" where
  "finishTest typed endTime s =
     (if ended s then s
      else (let r = score (targetText s) (startTime s) endTime typed
            in s\<lparr>ended := True, stats_hidden := False, time_text := time_text_of r,
                 wpm_text := wpm_text_of r, acc_text := acc_text_of r\<rparr>))"

definition input_handler :: "timestamp \<Rightarrow> timestamp \<Rightarrow> page \<Rightarrow> page" where
  "input_handler t_start t_end s =
     (if ended s then s
      else (let typed = input_value s;
                s1 = (if \<not> js_truthy_time (startTime s) \<and> 0 < length typed
                      then s\<lparr>startTime := Some t_start\<rparr> else s);
                s2 = s1\<lparr>words_el := updateVisuals (targetText s1) typed (words_el s1)\<rparr>
            in if typed = targetText s2 \<or> trimEnd typed = targetText s2
               then (let s3 = (if \<not> js_truthy_time (startTime s2)
                               then s2\<lparr>startTime := Some t_start\<rparr> else s2)
                     in finishTest (trimEnd typed) t_end s3)
               else s2))"

definition keydown_handler :: "js_string \<Rightarrow> timestamp \<Rightarrow> page \<Rightarrow> page" where
  "keydown_handler key t s =
     (if key = ''Enter''
      then (let typed = trimEnd (input_value s)
            in if length typed \<noteq> 0 \<and> \<not> ended s
               then (if typed = targetText s then finishTest typed t s else s)
               else s)
      else s)"

datatype event =
    Edit js_string timestamp timestamp
  | KeyDown js_string timestamp
  | PasteAttempt js_string
  | RestartClick random_source

fun step :: "event \<Rightarrow> page \<Rightarrow> js_error + page" where
  "step (Edit v t_start t_end) s = Inr (input_handler t_start t_end (s\<lparr>input_value := v\<rparr>))"
| "step (KeyDown key t) s = Inr (keydown_handler key t s)"
| "step (PasteAttempt txt) s = Inr s"
| "step (RestartClick rnd) s = startNewTest rnd s"

fun run :: "event list \<Rightarrow> page \<Rightarrow> js_error + page" where
  "run [] s = Inr s"
| "run (e # es) s = (case step e s of Inl err \<Rightarrow> Inl err | Inr s' \<Rightarrow> run es s')"

text \<open>The first \<open>performance.now()\<close> reads of the \<open>input\<close> handler: the start
  time after line 119, and after line 124 when the handler finishes the test.\<close>

definition start_after :: "timestamp \<Rightarrow> page \<Rightarrow> timestamp option" where
  "start_after t s = (if \<not> js_truthy_time (startTime s) \<and> 0 < length (input_value s) then Some t else startTime s)"

definition start_at_finish :: "timestamp \<Rightarrow> page \<Rightarrow> timestamp option" where
  "start_at_finish t s = (if js_truthy_time (start_after t s) then start_after t s else Some t)"

fun is_restart :: "event \<Rightarrow> bool" where
  "is_restart (RestartClick rnd) = True"
| "is_restart e = False"

text \<open>The events of typing a text one character at a time: the \<open>k\<close>-th edit sets
  the input to the first \<open>k\<close> characters at time \<open>ts k\<close>.\<close>

definition typing_events :: "js_string \<Rightarrow> (nat \<Rightarrow> timestamp) \<Rightarrow> event list" where
  "typing_events T ts = map (\<lambda>k. Edit (take k T) (ts k) (ts k)) [1..<Suc (length T)]"

section \<open>The handlers\<close>

lemma run_append:
  "run (xs @ ys) s = (case run xs s of Inl err \<Rightarrow> Inl err | Inr s' \<Rightarrow> run ys s')"
  by (induction xs arbitrary: s) (auto split: sum.splits)

lemma input_handler_ended: "ended s \<Longrightarrow> input_handler t1 t2 s = s"
  by (simp add: input_handler_def)

lemma input_handler_nomatch:
  assumes "\<not> ended s" "input_value s \<noteq> targetText s" "trimEnd (input_value s) \<noteq> targetText s"
  shows "input_handler t1 t2 s =
           s\<lparr>startTime := start_after t1 s,
             words_el := updateVisuals (targetText s) (input_value s) (words_el s)\<rparr>"
  using assms by (simp add: input_handler_def start_after_def Let_def)

lemma page_upd_comm:
  "s\<lparr>words_el := u, startTime := a\<rparr> = s\<lparr>startTime := a, words_el := u\<rparr>"
  by (cases s) simp

lemma input_handler_match:
  assumes "\<not> ended s" "trimEnd (input_value s) = targetText s"
  shows "input_handler t1 t2 s =
           finishTest (targetText s) t2
             (s\<lparr>startTime := start_at_finish t1 s,
                words_el := updateVisuals (targetText s) (input_value s) (words_el s)\<rparr>)"
proof -
  let ?u = "updateVisuals (targetText s) (input_value s) (words_el s)"
  have m: "(input_value s = targetText s \<or> trimEnd (input_value s) = targetText s) = True"
    using assms(2) by simp
  consider (set) "\<not> js_truthy_time (startTime s)" "0 < length (input_value s)"
    | (truthy) "js_truthy_time (startTime s)"
    | (empty) "\<not> js_truthy_time (startTime s)" "input_value s = []"
    by blast
  then show ?thesis
  proof cases
    case set
    then have "start_at_finish t1 s = Some t1"
      by (simp add: start_at_finish_def start_after_def)
    with set assms m show ?thesis by (simp add: input_handler_def Let_def page_upd_comm)
  next
    case truthy
    then have "start_at_finish t1 s = startTime s"
      by (simp add: start_at_finish_def start_after_def)
    with truthy assms m show ?thesis by (simp add: input_handler_def Let_def)
  next
    case empty
    then have "start_at_finish t1 s = Some t1"
      by (simp add: start_at_finish_def start_after_def)
    with empty assms m show ?thesis by (simp add: input_handler_def Let_def page_upd_comm)
  qed
qed

lemma finishTest_unended:
  "\<not> ended s \<Longrightarrow> finishTest typed t s =
     s\<lparr>ended := True, stats_hidden := False,
       time_text := time_text_of (score (targetText s) (startTime s) t typed),
       wpm_text := wpm_text_of (score (targetText s) (startTime s) t typed),
       acc_text := acc_text_of (score (targetText s) (startTime s) t typed)\<rparr>"
  by (simp add: finishTest_def Let_def)

lemma start_after_bound:
  "(\<forall>st. startTime s = Some st \<longrightarrow> st \<le> c) \<Longrightarrow> c \<le> t1 \<Longrightarrow> start_after t1 s = Some st \<Longrightarrow> st \<le> t1"
  by (auto simp: start_after_def split: if_splits)

lemma start_after_not_None: "input_value s \<noteq> [] \<Longrightarrow> start_after t s \<noteq> None"
  by (auto simp: start_after_def js_truthy_time_def split: option.splits)

lemma start_at_finish_match:
  "input_value s \<noteq> [] \<Longrightarrow>
   start_at_finish t s = (if js_truthy_time (startTime s) then startTime s else Some t)"
  by (simp add: start_at_finish_def start_after_def)

lemma score_match:
  "T \<noteq> [] \<Longrightarrow> acc_text_of (score T st t T) = ''100.0%''"
  by (simp add: acc_text_of_def score_def accuracy_of_same Let_def to_fixed_1_100)

lemma edit_match_result:
  assumes "targetText s \<noteq> []" "\<not> ended s" "trimEnd v = targetText s"
  shows "input_handler t1 t2 (s\<lparr>input_value := v\<rparr>) =
    (let st = (if js_truthy_time (startTime s) then startTime s else Some t1);
         r = score (targetText s) st t2 (targetText s)
     in s\<lparr>input_value := v, startTime := st,
          words_el := updateVisuals (targetText s) v (words_el s),
          ended := True, stats_hidden := False, time_text := time_text_of r,
          wpm_text := wpm_text_of r, acc_text := acc_text_of r\<rparr>)"
proof -
  let ?s0 = "s\<lparr>input_value := v\<rparr>"
  have "v \<noteq> []" using assms(1,3) by (auto simp: trimEnd_def)
  then have "start_at_finish t1 ?s0 = (if js_truthy_time (startTime s) then startTime s else Some t1)"
    using start_at_finish_match[of ?s0 t1] by simp
  with assms(2,3) show ?thesis
    using input_handler_match[of ?s0 t1 t2] by (simp add: finishTest_unended Let_def)
qed

lemma typing_prefix:
  assumes "\<not> ended s" "startTime s = None" "0 < ts 1" "j < length (targetText s)"
  shows "\<exists>s'. run (map (\<lambda>k. Edit (take k (targetText s)) (ts k) (ts k)) [1..<Suc j]) s = Inr s'
     \<and> \<not> ended s' \<and> targetText s' = targetText s \<and> startTime s' = (if j = 0 then None else Some (ts 1))"
  using assms(4)
proof (induction j)
  case 0
  then show ?case using assms(1,2) by simp
next
  case (Suc j)
  let ?T = "targetText s"
  from Suc obtain s1 where s1: "run (map (\<lambda>k. Edit (take k ?T) (ts k) (ts k)) [1..<Suc j]) s = Inr s1"
    "\<not> ended s1" "targetText s1 = ?T" "startTime s1 = (if j = 0 then None else Some (ts 1))" by auto
  let ?v = "take (Suc j) ?T"
  have "length (trimEnd ?v) \<le> Suc j" "length ?v = Suc j"
    using Suc.prems length_trimEnd_le[of ?v] by simp_all
  then have nm: "?v \<noteq> ?T" "trimEnd ?v \<noteq> ?T" using Suc.prems by auto
  have "start_after (ts (Suc j)) (s1\<lparr>input_value := ?v\<rparr>) = Some (ts 1)"
    using s1(4) assms(3) Suc.prems by (simp add: start_after_def js_truthy_time_def)
  then show ?case using s1 nm
    by (simp add: run_append input_handler_nomatch)
qed

section \<open>Properties of the handlers\<close>

text \<open>C7: Once a test has ended, no event other than a restart clears the ended flag or
  changes the displayed time, words per minute or accuracy.\<close>

theorem finish_latched:
  assumes "ended s" and "\<not> is_restart e" and "step e s = Inr s'"
  shows "ended s' \<and> time_text s' = time_text s \<and> wpm_text s' = wpm_text s \<and> acc_text s' = acc_text s"
  using assms by (cases e) (auto simp: input_handler_def keydown_handler_def Let_def)

text \<open>C12: With Math.random() values in [0, 1), startNewTest never takes its error path:
  pickWords never leaves an undefined entry, so renderWords never throws.\<close>

theorem restart_succeeds: "valid_random rnd \<Longrightarrow> \<exists>s'. startNewTest rnd s = Inr s'"
  using pickWords_words by (fastforce simp: startNewTest_def)

text \<open>C15: Once the start time holds a truthy reading, no event other than a restart changes
  it: the input handler writes it only while !startTime holds.\<close>

theorem start_time_kept:
  assumes "js_truthy_time (startTime s)" "\<not> is_restart e" "step e s = Inr s'"
  shows "startTime s' = startTime s"
  using assms by (cases e) (auto simp: input_handler_def keydown_handler_def finishTest_def Let_def)

text \<open>C29: A start time of exactly 0 counts as unset (!startTime): on every unfinished page
  whose start time is 0, the next non-empty edit overwrites it with that edit's own
  reading, whether or not the edit finishes the test.\<close>

theorem start_time_zero_overwritten:
  assumes "startTime s = Some 0" "\<not> ended s" "v \<noteq> []" "step (Edit v t1 t2) s = Inr s'"
  shows "startTime s' = Some t1"
proof -
  have "s' = input_handler t1 t2 (s\<lparr>input_value := v\<rparr>)" using assms(4) by simp
  then show ?thesis using assms(1-3)
    by (simp add: input_handler_def finishTest_def Let_def js_truthy_time_def)
qed

end
