(* ===== verification/Reachability.thy ===== *)
theory Reachability
  imports Session
begin

text \<open>
  The pages the program can reach: the environment of the handlers (a monotonic
  clock, \<open>Math.random()\<close> in \<open>[0, 1)\<close>), the inductive set \<open>reachable\<close> of pages
  after the initial \<open>startNewTest()\<close> (line 145) and any sequence of allowed events,
  and the invariant \<open>page_inv\<close> that every reachable page satisfies, proved by rule
  induction over \<open>reachable\<close>. The properties of the running program that need the
  invariant are stated over \<open>reachable\<close>.
\<close>

text \<open>The environment: the clock is monotonic and \<open>Math.random()\<close> lies in
  \<open>[0, 1)\<close>. \<open>event_ok c e\<close> says that \<open>e\<close> can happen when the clock last read
  \<open>c\<close>; \<open>clock_after c e\<close> is the last reading after it.\<close>

fun event_ok :: "timestamp \<Rightarrow> event \<Rightarrow> bool" where
  "event_ok c (Edit v t_start t_end) \<longleftrightarrow> c \<le> t_start \<and> t_start \<le> t_end"
| "event_ok c (KeyDown key t) \<longleftrightarrow> c \<le> t"
| "event_ok c (PasteAttempt txt) \<longleftrightarrow> True"
| "event_ok c (RestartClick rnd) \<longleftrightarrow> valid_random rnd"

fun clock_after :: "timestamp \<Rightarrow> event \<Rightarrow> timestamp" where
  "clock_after c (Edit v t_start t_end) = t_end"
| "clock_after c (KeyDown key t) = t"
| "clock_after c (PasteAttempt txt) = c"
| "clock_after c (RestartClick rnd) = c"

text \<open>The reachable pages with the clock's last reading: the page after the
  initial \<open>startNewTest()\<close> of line 145, from any page, and every page an event
  leads to.\<close>

inductive reachable :: "page \<Rightarrow> timestamp \<Rightarrow> bool" where
  init: "valid_random rnd \<Longrightarrow> startNewTest rnd p0 = Inr s \<Longrightarrow> reachable s c"
| step: "reachable s c \<Longrightarrow> event_ok c e \<Longrightarrow> step e s = Inr s' \<Longrightarrow> reachable s' (clock_after c e)"

text \<open>The invariant of the reachable pages, in five parts: the target and its
  rendering agree; while running, the input is not yet the target and the display
  shows its classification; a start time is never in the future; a finished or
  typed-into page has a start time; the statistics are shown exactly when the test
  has ended, with the scores of a match.\<close>

definition target_ok :: "page \<Rightarrow> bool" where
  "target_ok s \<longleftrightarrow>
     targetText s = js_join '' '' (targetWords s) \<and>
     length (targetWords s) = WORD_COUNT \<and> (\<forall>w \<in> set (targetWords s). plain_word w) \<and>
     map (map span_text) (words_el s) = map (map span_text) (renderWords (targetWords s)) \<and>
     map span_text (char_nodes (words_el s)) = map (\<lambda>x. [x]) (targetText s)"

definition running_ok :: "page \<Rightarrow> bool" where
  "running_ok s \<longleftrightarrow>
     (\<not> ended s \<longrightarrow> trimEnd (input_value s) \<noteq> targetText s \<and>
        map span_class (char_nodes (words_el s))
          = map (classify (targetText s) (input_value s)) [0..<length (targetText s)])"

definition clock_ok :: "page \<Rightarrow> timestamp \<Rightarrow> bool" where
  "clock_ok s c \<longleftrightarrow> (\<forall>st. startTime s = Some st \<longrightarrow> st \<le> c)"

definition start_ok :: "page \<Rightarrow> bool" where
  "start_ok s \<longleftrightarrow> (ended s \<or> input_value s \<noteq> [] \<longrightarrow> startTime s \<noteq> None)"

definition result_ok :: "page \<Rightarrow> bool" where
  "result_ok s \<longleftrightarrow>
     (stats_hidden s \<longleftrightarrow> \<not> ended s) \<and>
     (ended s \<longrightarrow> (\<exists>r. 0 \<le> elapsedSec r \<and> wpm r = wpm_of (elapsedSec r) \<and> accuracy r = Num 100
                      \<and> time_text s = time_text_of r
                      \<and> wpm_text s = wpm_text_of r \<and> acc_text s = acc_text_of r))"

definition page_inv :: "page \<Rightarrow> timestamp \<Rightarrow> bool" where
  "page_inv s c \<longleftrightarrow> target_ok s \<and> running_ok s \<and> clock_ok s c \<and> start_ok s \<and> result_ok s"

section \<open>The invariant of reachable pages\<close>

lemma target_ok_text:
  assumes "target_ok s"
  shows "targetText s \<noteq> [] \<and> trimEnd (targetText s) = targetText s"
proof -
  have "targetWords s \<noteq> []" using assms by (auto simp: target_ok_def WORD_COUNT_def)
  then show ?thesis using assms join_plain_last trimEnd_join_plain by (auto simp: target_ok_def)
qed

lemma target_ok_length:
  "target_ok s \<Longrightarrow> length (char_nodes (words_el s)) = length (targetText s)"
  unfolding target_ok_def by (metis length_map)

lemma page_inv_clock: "page_inv s c \<Longrightarrow> c \<le> c' \<Longrightarrow> page_inv s c'"
  by (auto simp: page_inv_def clock_ok_def)

lemma page_inv_startNewTest:
  assumes "valid_random rnd" and "startNewTest rnd p = Inr s"
  shows "page_inv s c"
proof -
  obtain ws where ws: "those (pickWords rnd) = Some ws"
    and s: "s = p\<lparr>targetWords := ws, targetText := js_join '' '' ws,
                         words_el := renderWords ws, input_value := [],
                         startTime := None, ended := False, stats_hidden := True,
                         time_text := ''0.00'', wpm_text := ''0'', acc_text := ''0%''\<rparr>"
    using assms(2) by (auto simp: startNewTest_def split: option.splits)
  from pickWords_words[OF assms(1)] ws have w: "length ws = WORD_COUNT" "\<forall>w \<in> set ws. plain_word w"
    by auto
  then have ne: "ws \<noteq> []" by (auto simp: WORD_COUNT_def)
  have tr: "trimEnd [] \<noteq> js_join '' '' ws"
    using join_plain_last[OF ne w(2)] by (auto simp: trimEnd_def)
  have texts: "map span_text (char_nodes (renderWords ws)) = map (\<lambda>x. [x]) (js_join '' '' ws)"
    by (rule renderWords_text)
  have cls: "map span_class (char_nodes (renderWords ws)) = map (classify (js_join '' '' ws) []) [0..<length (js_join '' '' ws)]"
  proof -
    have "length (char_nodes (renderWords ws)) = length (js_join '' '' ws)"
      using texts by (metis length_map)
    moreover have "\<forall>x \<in> set (map span_class (char_nodes (renderWords ws))). x = Pending"
      using renderWords_pending[of ws] by auto
    ultimately have "map span_class (char_nodes (renderWords ws)) = replicate (length (js_join '' '' ws)) Pending"
      by (metis length_map replicate_length_same)
    moreover have "classify (js_join '' '' ws) [] = (\<lambda>_. Pending)"
      by (rule ext) (simp add: classify_def)
    ultimately show ?thesis by (simp add: map_replicate_const)
  qed
  show ?thesis using w tr texts cls
    by (simp add: s page_inv_def target_ok_def running_ok_def clock_ok_def start_ok_def result_ok_def)
qed

lemma page_inv_unfinished:
  "page_inv s c \<Longrightarrow> \<not> ended s \<Longrightarrow> trimEnd (input_value s) \<noteq> targetText s"
  unfolding page_inv_def running_ok_def by blast

lemma keydown_page_inv: "page_inv s c \<Longrightarrow> keydown_handler key t s = s"
  by (auto simp: keydown_handler_def Let_def dest: page_inv_unfinished)

lemma start_at_finish_bound:
  assumes "clock_ok s c" "c \<le> t"
  obtains st where "start_at_finish t s = Some st" "st \<le> t"
proof (cases "js_truthy_time (start_after t s)")
  case True
  then obtain st where st: "start_after t s = Some st" by (cases "start_after t s") (auto simp: js_truthy_time_def)
  then have "st \<le> t" using assms start_after_bound[of s c t st] by (simp add: clock_ok_def)
  with st True that show ?thesis by (simp add: start_at_finish_def)
next
  case False
  with that show ?thesis by (simp add: start_at_finish_def)
qed

lemma target_ok_frame:
  assumes "target_ok s" "targetWords s' = targetWords s" "targetText s' = targetText s"
    "map (map span_text) (words_el s') = map (map span_text) (words_el s)"
  shows "target_ok s'"
  using assms(1) unfolding target_ok_def char_nodes_text assms(2-4) .

lemma page_inv_edit:
  assumes inv: "page_inv s c" and t: "c \<le> t1" "t1 \<le> t2"
  shows "page_inv (input_handler t1 t2 (s\<lparr>input_value := v\<rparr>)) t2"
proof -
  let ?s0 = "s\<lparr>input_value := v\<rparr>"
  let ?T = "targetText s"
  let ?u = "updateVisuals ?T v (words_el s)"
  define P where "P = input_handler t1 t2 ?s0"
  from inv have tg: "target_ok s" and rn: "running_ok s" and ck: "clock_ok s c"
    and so: "start_ok s" and rs: "result_ok s"
    by (auto simp: page_inv_def)
  have ck0: "clock_ok ?s0 c" using ck by (simp add: clock_ok_def)
  consider (fin) "ended s" | (hit) "\<not> ended s" "trimEnd v = ?T" | (miss) "\<not> ended s" "trimEnd v \<noteq> ?T"
    by blast
  then have "target_ok P \<and> running_ok P \<and> clock_ok P t2 \<and> start_ok P \<and> result_ok P"
  proof cases
    case fin
    then have res: "P = ?s0" by (simp add: P_def input_handler_ended)
    have "target_ok P" using tg by (rule target_ok_frame) (simp_all add: res)
    moreover have "running_ok P" using fin by (simp add: res running_ok_def)
    moreover have "clock_ok P t2" using ck t by (force simp: res clock_ok_def)
    moreover have "start_ok P" using so fin by (simp add: res start_ok_def)
    moreover have "result_ok P" using rs by (simp add: res result_ok_def)
    ultimately show ?thesis by blast
  next
    case hit
    obtain st where st: "start_at_finish t1 ?s0 = Some st" "st \<le> t1"
      using start_at_finish_bound[OF ck0 t(1)] by blast
    let ?r = "score ?T (Some st) t2 ?T"
    have res: "P = ?s0\<lparr>startTime := Some st, words_el := ?u, ended := True, stats_hidden := False,
            time_text := time_text_of ?r, wpm_text := wpm_text_of ?r, acc_text := acc_text_of ?r\<rparr>"
      using hit st by (simp add: P_def input_handler_match finishTest_unended)
    have "0 \<le> elapsedSec ?r" using st t by (simp add: score_def elapsed_of_def js_time_def Let_def)
    moreover have "wpm ?r = wpm_of (elapsedSec ?r)" by (simp add: score_def Let_def)
    moreover have "accuracy ?r = Num 100"
      using target_ok_text[OF tg] by (simp add: score_def accuracy_of_same Let_def)
    ultimately have "result_ok P" unfolding res result_ok_def by auto
    moreover have "target_ok P"
      using tg by (rule target_ok_frame) (simp_all add: res updateVisuals_def restyle_words_text)
    moreover have "running_ok P" by (simp add: res running_ok_def)
    moreover have "clock_ok P t2" using st t by (simp add: res clock_ok_def)
    moreover have "start_ok P" by (simp add: res start_ok_def)
    ultimately show ?thesis by blast
  next
    case miss
    then have nv: "v \<noteq> ?T" using target_ok_text[OF tg] by auto
    have res: "P = ?s0\<lparr>startTime := start_after t1 ?s0, words_el := ?u\<rparr>"
      using miss nv by (simp add: P_def input_handler_nomatch)
    have "target_ok P"
      using tg by (rule target_ok_frame) (simp_all add: res updateVisuals_def restyle_words_text)
    moreover have "running_ok P"
      using miss updateVisuals_classes[OF target_ok_length[OF tg]] by (simp add: res running_ok_def)
    moreover have "clock_ok P t2"
    proof -
      have "st \<le> t2" if "start_after t1 ?s0 = Some st" for st
        using start_after_bound[of ?s0 c t1 st] ck0 t that by (simp add: clock_ok_def)
      then show ?thesis by (simp add: res clock_ok_def)
    qed
    moreover have "start_ok P"
      using start_after_not_None[of ?s0 t1] miss by (simp add: res start_ok_def)
    moreover have "result_ok P" using rs miss by (simp add: res result_ok_def)
    ultimately show ?thesis by blast
  qed
  then show ?thesis by (simp add: P_def page_inv_def)
qed

lemma page_inv_step:
  assumes "page_inv s c" "event_ok c e" "step e s = Inr s'"
  shows "page_inv s' (clock_after c e)"
proof (cases e)
  case (Edit v t1 t2)
  with assms show ?thesis by (auto intro: page_inv_edit)
next
  case (KeyDown key t)
  with assms show ?thesis by (auto simp: keydown_page_inv intro: page_inv_clock)
next
  case (PasteAttempt x)
  with assms show ?thesis by simp
next
  case (RestartClick rnd)
  with assms show ?thesis by (auto intro: page_inv_startNewTest)
qed

lemma reachable_page_inv: "reachable s c \<Longrightarrow> page_inv s c"
proof (induction rule: reachable.induct)
  case (init rnd p0 s c)
  then show ?case by (rule page_inv_startNewTest)
next
  case (step s c e s')
  from step.IH step.hyps(2,3) show ?case by (rule page_inv_step)
qed

lemma reachable_target_ne: "reachable s c \<Longrightarrow> targetText s \<noteq> []"
  using target_ok_text reachable_page_inv by (auto simp: page_inv_def)

lemma reachable_target_trimmed: "reachable s c \<Longrightarrow> trimEnd (targetText s) = targetText s"
  using target_ok_text reachable_page_inv by (auto simp: page_inv_def)

lemma reachable_target_long: "reachable s c \<Longrightarrow> 2 \<le> length (targetText s)"
proof -
  assume "reachable s c"
  then have tg: "target_ok s" using reachable_page_inv by (simp add: page_inv_def)
  then obtain w v ws where "targetWords s = w # v # ws"
    by (cases "targetWords s" rule: remdups_adj.cases) (auto simp: target_ok_def WORD_COUNT_def)
  moreover have "w \<noteq> []" using tg calculation by (auto simp: target_ok_def plain_word_def)
  ultimately show ?thesis using tg by (cases w) (auto simp: target_ok_def)
qed

lemma reachable_key: "reachable s c \<Longrightarrow> step (KeyDown k c) s = Inr s \<and> reachable s (clock_after c (KeyDown k c))"
  using keydown_page_inv[OF reachable_page_inv] by simp

lemma reachable_edit:
  "reachable s c \<Longrightarrow> c \<le> t1 \<Longrightarrow> t1 \<le> t2 \<Longrightarrow>
   reachable (input_handler t1 t2 (s\<lparr>input_value := v\<rparr>)) (clock_after c (Edit v t1 t2))"
  using reachable.step[of s c "Edit v t1 t2"] by simp

lemma edit_target_ends:
  "reachable s c \<Longrightarrow> \<not> ended s \<Longrightarrow> ended (input_handler t1 t2 (s\<lparr>input_value := targetText s\<rparr>))"
  using edit_match_result[OF reachable_target_ne _ reachable_target_trimmed] by (simp add: Let_def)

section \<open>Properties of reachable pages\<close>

text \<open>C1: In every reachable page whose test has ended, the accuracy display reads 100.0%:
  the input handler finishes only on an exact match after trimming trailing white
  space, and the Enter path never finishes, so no run yields an accuracy below 100%.\<close>

theorem finished_accuracy_100:
  assumes "reachable s c" and "ended s"
  shows "acc_text s = ''100.0%''"
proof -
  from reachable_page_inv[OF assms(1)] have "result_ok s" by (simp add: page_inv_def)
  with assms(2) obtain r where "accuracy r = Num 100" "acc_text s = acc_text_of r"
    by (auto simp: result_ok_def)
  then show ?thesis by (simp add: acc_text_of_def to_fixed_1_100)
qed

text \<open>C4: In every reachable page the keydown handler, the Enter key included, leaves the
  page unchanged: whenever the trimmed input equals the target, the input handler has
  already ended the test.\<close>

theorem keydown_never_changes:
  "reachable s c \<Longrightarrow> keydown_handler key t s = s"
  using reachable_page_inv keydown_page_inv by blast

text \<open>C8: While a reachable test has not ended, the classes of the character spans are the
  specification's classification of the current input against the target: pending past
  the input, correct where the characters agree, incorrect elsewhere.\<close>

theorem running_display_classifies:
  assumes "reachable s c" and "\<not> ended s"
  shows "map span_class (char_nodes (words_el s))
           = map (classify (targetText s) (input_value s)) [0..<length (targetText s)]"
  using reachable_page_inv[OF assms(1)] assms(2) by (simp add: page_inv_def running_ok_def)

text \<open>C13: In every reachable page the target text split on single spaces gives back the ten
  target words (compose(words).split(' ') == words).\<close>

theorem target_split_roundtrip:
  assumes "reachable s c"
  shows "js_split CHR '' '' (targetText s) = targetWords s \<and> length (targetWords s) = WORD_COUNT"
proof -
  from reachable_page_inv[OF assms] have tg: "target_ok s" by (simp add: page_inv_def)
  then have ne: "targetWords s \<noteq> []" by (auto simp: target_ok_def WORD_COUNT_def)
  have "\<forall>w \<in> set (targetWords s). CHR '' '' \<notin> set w"
    using tg plain_word_no_space by (simp add: target_ok_def)
  with ne tg show ?thesis by (simp add: target_ok_def js_split_join)
qed

text \<open>C9: When a reachable test has ended, the displayed time and words per minute come from
  one non-negative elapsed time e: the time is e.toFixed(2) and the rate
  String(Math.round(wpm)) of the JavaScript number wpm, which is WORD_COUNT per elapsed
  minute and 0 (not Infinity) when e is 0.\<close>

theorem finished_scores_consistent:
  assumes "reachable s c" and "ended s"
  shows "\<exists>e. 0 \<le> e \<and> time_text s = to_fixed 2 e \<and> wpm_text s = round_text (wpm_of e)"
proof -
  from reachable_page_inv[OF assms(1)] have "result_ok s" by (simp add: page_inv_def)
  with assms(2) obtain r where "0 \<le> elapsedSec r" "wpm r = wpm_of (elapsedSec r)"
      "time_text s = time_text_of r" "wpm_text s = wpm_text_of r"
    by (auto simp: result_ok_def)
  then show ?thesis by (auto simp: time_text_of_def wpm_text_of_def)
qed

text \<open>C2: From every reachable unfinished page, an edit whose value with trailing white space
  removed equals the target finishes the test: the start time is the recorded truthy
  one or this edit's reading, the statistics are shown, the time is toFixed(2) of the
  elapsed seconds, the rate is Math.round of WORD_COUNT per elapsed minute and the
  accuracy reads 100.0%.\<close>

theorem exact_match_finishes:
  assumes "reachable s c" "\<not> ended s" "trimEnd v = targetText s"
    and "step (Edit v t1 t2) s = Inr s'"
  shows "startTime s' = (if js_truthy_time (startTime s) then startTime s else Some t1)
     \<and> ended s' \<and> \<not> stats_hidden s'
     \<and> time_text s' = to_fixed 2 ((t2 - js_time (startTime s')) / 1000)
     \<and> wpm_text s' = round_text (wpm_of ((t2 - js_time (startTime s')) / 1000))
     \<and> acc_text s' = ''100.0%''"
proof -
  have s': "s' = input_handler t1 t2 (s\<lparr>input_value := v\<rparr>)" using assms(4) by simp
  show ?thesis
    using edit_match_result[OF reachable_target_ne[OF assms(1)] assms(2,3)]
      score_match[OF reachable_target_ne[OF assms(1)]] unfolding s'
    by (simp add: Let_def time_text_of_def wpm_text_of_def score_def elapsed_of_def)
qed

text \<open>C14: In every reachable page that has ended or holds a non-empty input, the start time
  is set and is not later than the clock's last reading; a finished page never has
  startTime null.\<close>

theorem typed_text_has_start:
  assumes "reachable s c" "ended s \<or> input_value s \<noteq> []"
  shows "\<exists>st. startTime s = Some st \<and> st \<le> c"
  using reachable_page_inv[OF assms(1)] assms(2)
  by (auto simp: page_inv_def start_ok_def clock_ok_def)

text \<open>C16: In every reachable page #words holds WORD_COUNT word spans, and word span i holds
  one character span per character of target word i followed, except for the last word,
  by a space span: the structure renderWords built, which updateVisuals never changes.\<close>

theorem words_el_shape:
  assumes "reachable s c"
  shows "length (words_el s) = WORD_COUNT \<and>
    (\<forall>i < WORD_COUNT. map span_text (words_el s ! i)
        = map (\<lambda>c. [c]) (targetWords s ! i) @ (if Suc i < WORD_COUNT then ['' ''] else []))"
proof -
  have tg: "target_ok s" using reachable_page_inv[OF assms] by (simp add: page_inv_def)
  then have sh: "map (map span_text) (words_el s) = map (map span_text) (renderWords (targetWords s))"
    and n: "length (targetWords s) = WORD_COUNT" by (auto simp: target_ok_def)
  from sh have l: "length (words_el s) = WORD_COUNT" using n by (metis length_map length_renderWords)
  have "map span_text (words_el s ! i) = map span_text (renderWords (targetWords s) ! i)"
    if "i < WORD_COUNT" for i using sh that l n by (metis length_renderWords nth_map)
  with l n show ?thesis by (simp add: renderWords_nth)
qed

text \<open>C3: Typing the target one character at a time from a reachable page that has not
  started (the k-th edit sets the input to the first k characters at time ts k, with ts
  1 > 0) finishes the test exactly at the last keystroke: the start time is the first
  keystroke's reading, the time shown is toFixed(2) of (ts n - ts 1) / 1000 and the
  accuracy 100.0%.\<close>

theorem type_target_keystrokes:
  assumes "reachable s c" "\<not> ended s" "startTime s = None" "0 < ts 1"
  shows "\<exists>s'. run (typing_events (targetText s) ts) s = Inr s' \<and> ended s'
     \<and> startTime s' = Some (ts 1)
     \<and> time_text s' = to_fixed 2 ((ts (length (targetText s)) - ts 1) / 1000)
     \<and> acc_text s' = ''100.0%''"
proof -
  let ?T = "targetText s" and ?n = "length (targetText s)"
  have ne: "?T \<noteq> []" using reachable_target_ne[OF assms(1)] .
  then have n: "[1..<Suc ?n] = [1..<Suc (?n - 1)] @ [?n]" by (cases ?T) auto
  obtain s1 where s1: "run (map (\<lambda>k. Edit (take k ?T) (ts k) (ts k)) [1..<Suc (?n - 1)]) s = Inr s1"
    "\<not> ended s1" "targetText s1 = ?T" "startTime s1 = (if ?n - 1 = 0 then None else Some (ts 1))"
    using typing_prefix[of s ts "?n - 1"] assms(2-4) ne by auto
  have st: "(if js_truthy_time (startTime s1) then startTime s1 else Some (ts ?n)) = Some (ts 1)"
    using s1(4) assms(4) ne by (cases ?T) (auto simp: js_truthy_time_def)
  define s' where "s' = input_handler (ts ?n) (ts ?n) (s1\<lparr>input_value := ?T\<rparr>)"
  have run: "run (typing_events ?T ts) s = Inr s'"
    unfolding typing_events_def n map_append run_append s1(1) by (simp add: s'_def)
  have "trimEnd ?T = targetText s1" using reachable_target_trimmed[OF assms(1)] s1(3) by simp
  then have eq: "s' = (let r = score ?T (Some (ts 1)) (ts ?n) ?T
      in s1\<lparr>input_value := ?T, startTime := Some (ts 1),
          words_el := updateVisuals ?T ?T (words_el s1),
          ended := True, stats_hidden := False, time_text := time_text_of r,
          wpm_text := wpm_text_of r, acc_text := acc_text_of r\<rparr>)"
    using edit_match_result[of s1 ?T "ts ?n" "ts ?n"] s1(2,3) ne st by (simp add: s'_def Let_def)
  have "time_text s' = to_fixed 2 ((ts ?n - ts 1) / 1000)"
    by (simp add: eq Let_def time_text_of_def score_def elapsed_of_def js_time_def)
  moreover have "acc_text s' = ''100.0%''" using score_match[OF ne] by (simp add: eq Let_def)
  ultimately show ?thesis using run by (simp add: eq Let_def)
qed

text \<open>C10: On every reachable finished page the time display is a decimal numeral with
  exactly two digits after the point and the words-per-minute display a non-empty
  string of decimal digits: the minutes > 0 guard keeps 'Infinity' off the page when a
  test finishes with zero elapsed time, and no minus sign is shown.\<close>

theorem finished_display_decimal:
  assumes "reachable s c" "ended s"
  shows "(\<exists>ip fp. time_text s = ip @ CHR ''.'' # fp \<and> ip \<noteq> [] \<and> length fp = 2
        \<and> (\<forall>ch \<in> set (ip @ fp). (48::nat) \<le> of_char ch \<and> of_char ch \<le> (57::nat)))
     \<and> wpm_text s \<noteq> [] \<and> (\<forall>ch \<in> set (wpm_text s). (48::nat) \<le> of_char ch \<and> of_char ch \<le> (57::nat))"
proof -
  from reachable_page_inv[OF assms(1)] have "result_ok s" by (simp add: page_inv_def)
  with assms(2) obtain r where r: "0 \<le> elapsedSec r" "wpm r = wpm_of (elapsedSec r)"
      "time_text s = time_text_of r" "wpm_text s = wpm_text_of r"
    by (auto simp: result_ok_def)
  obtain w where w: "wpm r = Num w" "0 \<le> w" using wpm_of_nonneg[OF r(1)] r(2) by auto
  then have "0 \<le> js_round w" by (simp add: js_round_def)
  then have "wpm_text s = nat_digits (nat (js_round w))"
    using r(4) w(1) by (simp add: wpm_text_of_def int_to_js_nonneg)
  moreover have "time_text s = fixed_digits 2 (elapsedSec r)"
    using r(1,3) by (simp add: time_text_of_def to_fixed_def)
  ultimately show ?thesis using fixed_digits_shape[of 2 "elapsedSec r"] nat_digits_digits by auto
qed

end
