(* ===== verification/Phase_Machine.thy ===== *)
theory Phase_Machine
  imports Reachability
begin

text \<open>
  The state machine of the specification (section 4.3): the phases NOT_STARTED,
  RUNNING and FINISHED, the abstraction \<open>phase\<close> of a page, and the transitions
  \<open>spec_trans\<close> the specification allows for each event. \<open>step_refines_spec\<close> shows
  that every step of the program from a reachable page follows an allowed
  transition; the completeness lemmas show that every allowed transition is taken
  by some event from every reachable page in that phase.
\<close>

datatype phase = NOT_STARTED | RUNNING | FINISHED

text \<open>The phase of a page in the state machine of the specification (section 4.3):
  finished once \<open>ended\<close> is set, running once \<open>startTime\<close> is set.\<close>

definition phase :: "page \<Rightarrow> phase" where
  "phase s = (if ended s then FINISHED else if startTime s = None then NOT_STARTED else RUNNING)"

text \<open>The transitions the specification allows, per event: typing starts a
  session, an edit may finish it, a finished session stays finished until a
  restart, a key press or a paste attempt changes no phase.\<close>

inductive spec_trans :: "phase \<Rightarrow> event \<Rightarrow> phase \<Rightarrow> bool" where
  edit_empty: "spec_trans NOT_STARTED (Edit [] t1 t2) NOT_STARTED"
| edit_start: "v \<noteq> [] \<Longrightarrow> spec_trans NOT_STARTED (Edit v t1 t2) RUNNING"
| edit_start_finish: "v \<noteq> [] \<Longrightarrow> spec_trans NOT_STARTED (Edit v t1 t2) FINISHED"
| edit_run: "spec_trans RUNNING (Edit v t1 t2) RUNNING"
| edit_finish: "spec_trans RUNNING (Edit v t1 t2) FINISHED"
| edit_finished: "spec_trans FINISHED (Edit v t1 t2) FINISHED"
| key: "spec_trans p (KeyDown key t) p"
| paste: "spec_trans p (PasteAttempt txt) p"
| restart: "spec_trans p (RestartClick rnd) NOT_STARTED"

section \<open>Refinement of the phase machine\<close>

lemma edit_first_char_runs:
  assumes "reachable s c" "\<not> ended s"
  shows "phase (input_handler t t (s\<lparr>input_value := [hd (targetText s)]\<rparr>)) = RUNNING"
proof -
  let ?T = "targetText s" and ?v = "[hd (targetText s)]"
  have l: "2 \<le> length ?T" using reachable_target_long[OF assms(1)] .
  have "length (trimEnd ?v) \<le> 1" using length_trimEnd_le[of ?v] by simp
  then have "trimEnd ?v \<noteq> ?T" using l by auto
  moreover have "length ?v < length ?T" using l by simp
  then have "?v \<noteq> ?T" by (metis less_irrefl)
  ultimately show ?thesis using assms(2) start_after_not_None[of "s\<lparr>input_value := ?v\<rparr>" t]
    by (simp add: input_handler_nomatch phase_def)
qed

lemma phase_edit:
  assumes inv: "page_inv s c" and t: "c \<le> t1"
  shows "spec_trans (phase s) (Edit v t1 t2) (phase (input_handler t1 t2 (s\<lparr>input_value := v\<rparr>)))"
proof -
  let ?s0 = "s\<lparr>input_value := v\<rparr>"
  let ?T = "targetText s"
  from inv have tg: "target_ok s" and ck: "clock_ok s c" by (auto simp: page_inv_def)
  have ck0: "clock_ok ?s0 c" using ck by (simp add: clock_ok_def)
  consider (fin) "ended s" | (hit) "\<not> ended s" "trimEnd v = ?T" | (miss) "\<not> ended s" "trimEnd v \<noteq> ?T"
    by blast
  then show ?thesis
  proof cases
    case fin
    then show ?thesis by (simp add: input_handler_ended phase_def spec_trans.edit_finished)
  next
    case hit
    have "v \<noteq> []" using hit target_ok_text[OF tg] by (auto simp: trimEnd_def)
    obtain st where st: "start_at_finish t1 ?s0 = Some st" "st \<le> t1"
      using start_at_finish_bound[OF ck0 t] by blast
    have "phase (input_handler t1 t2 ?s0) = FINISHED"
      using hit st by (simp add: input_handler_match finishTest_unended phase_def)
    with hit \<open>v \<noteq> []\<close> show ?thesis
      by (auto simp: phase_def intro: spec_trans.edit_start_finish spec_trans.edit_finish)
  next
    case miss
    then have nv: "v \<noteq> ?T" using target_ok_text[OF tg] by auto
    have res: "input_handler t1 t2 ?s0 = ?s0\<lparr>startTime := start_after t1 ?s0,
        words_el := updateVisuals ?T v (words_el s)\<rparr>"
      using miss nv by (simp add: input_handler_nomatch)
    show ?thesis
    proof (cases "startTime s")
      case None
      show ?thesis
      proof (cases "v = []")
        case True
        then have "start_after t1 ?s0 = None" using None by (simp add: start_after_def)
        with True None miss show ?thesis unfolding res by (simp add: phase_def spec_trans.edit_empty)
      next
        case False
        then have "start_after t1 ?s0 = Some t1" using None by (simp add: start_after_def js_truthy_time_def)
        with False None miss show ?thesis unfolding res by (simp add: phase_def spec_trans.edit_start)
      qed
    next
      case (Some x)
      then obtain y where "start_after t1 ?s0 = Some y"
        by (cases "start_after t1 ?s0") (auto simp: start_after_def split: if_splits)
      with Some miss show ?thesis unfolding res by (simp add: phase_def spec_trans.edit_run)
    qed
  qed
qed

text \<open>C5: Every event the environment allows takes a reachable page along a transition of the
  specification's state machine NOT_STARTED, RUNNING, FINISHED (section 4.3): edits
  start and may finish a test, a finished test stays finished until a restart, key
  presses and paste attempts change no phase, a restart returns to NOT_STARTED.\<close>

theorem step_refines_spec:
  assumes "reachable s c" and "event_ok c e" and "step e s = Inr s'"
  shows "spec_trans (phase s) e (phase s')"
proof -
  have inv: "page_inv s c" using assms(1) by (rule reachable_page_inv)
  show ?thesis
  proof (cases e)
    case (Edit v t1 t2)
    with assms(2,3) phase_edit[OF inv] show ?thesis by auto
  next
    case (KeyDown key t)
    with assms(3) keydown_page_inv[OF inv] show ?thesis by (simp add: spec_trans.key)
  next
    case (PasteAttempt x)
    with assms(3) show ?thesis by (simp add: spec_trans.paste)
  next
    case (RestartClick rnd)
    then have "phase s' = NOT_STARTED"
      using assms(3) by (auto simp: startNewTest_def phase_def split: option.splits)
    with RestartClick show ?thesis by (simp add: spec_trans.restart)
  qed
qed

text \<open>C11: A successful startNewTest gives a fresh NOT_STARTED page: empty input, no start
  time, hidden statistics with the texts 0.00, 0 and 0%, and every character span
  pending.\<close>

theorem restart_resets:
  assumes "startNewTest rnd s = Inr s'"
  shows "phase s' = NOT_STARTED \<and> input_value s' = [] \<and> stats_hidden s'
    \<and> time_text s' = ''0.00'' \<and> wpm_text s' = ''0'' \<and> acc_text s' = ''0%''
    \<and> (\<forall>sp \<in> set (char_nodes (words_el s')). span_class sp = Pending)"
  using assms renderWords_pending by (auto simp: startNewTest_def phase_def split: option.splits)

text \<open>C6: Completeness of the refinement: every transition the specification's state machine
  allows from the phase of a reachable page is taken by some event the environment
  allows, to a reachable page in the target phase; no behaviour of the specification is
  missing from the program.\<close>

theorem phase_transitions_complete:
  assumes "reachable s c" "spec_trans (phase s) e0 p'"
  shows "\<exists>e s'. event_ok c e \<and> spec_trans (phase s) e p' \<and> step e s = Inr s'
     \<and> phase s' = p' \<and> reachable s' (clock_after c e)"
proof -
  have stay: "\<exists>e s'. event_ok c e \<and> spec_trans (phase s) e (phase s) \<and> step e s = Inr s'
     \<and> phase s' = phase s \<and> reachable s' (clock_after c e)"
    using reachable_key[OF assms(1), of "''a''"]
    by (intro exI[of _ "KeyDown ''a'' c"] exI[of _ s]) (simp add: spec_trans.key)
  have fin: ?thesis if "p' = FINISHED" "phase s \<noteq> FINISHED"
  proof -
    let ?e = "Edit (targetText s) c c"
    have ne: "\<not> ended s" "targetText s \<noteq> []" using that reachable_target_ne[OF assms(1)]
      by (auto simp: phase_def split: if_splits)
    have "spec_trans (phase s) ?e FINISHED" using that ne
      by (cases "phase s") (auto intro: spec_trans.intros)
    then show ?thesis using that edit_target_ends[OF assms(1) ne(1), of c c] reachable_edit[OF assms(1)]
      by (intro exI[of _ ?e] exI[of _ "input_handler c c (s\<lparr>input_value := targetText s\<rparr>)"])
        (simp add: phase_def)
  qed
  have start: ?thesis if "phase s = NOT_STARTED" "p' = RUNNING"
  proof -
    let ?v = "[hd (targetText s)]"
    have "\<not> ended s" using that by (auto simp: phase_def split: if_splits)
    then show ?thesis using that edit_first_char_runs[OF assms(1), of c] reachable_edit[OF assms(1)]
      by (intro exI[of _ "Edit ?v c c"] exI[of _ "input_handler c c (s\<lparr>input_value := ?v\<rparr>)"])
        (simp add: spec_trans.edit_start)
  qed
  have reset: ?thesis if "p' = NOT_STARTED"
  proof -
    obtain s' where s': "startNewTest (\<lambda>_. 0) s = Inr s'"
      using pickWords_words[OF valid_random_const0] by (fastforce simp: startNewTest_def)
    then have "phase s' = NOT_STARTED" by (auto simp: startNewTest_def phase_def split: option.splits)
    moreover have "reachable s' c" using reachable.step[OF assms(1), of "RestartClick (\<lambda>_. 0)"] s'
      valid_random_const0 by simp
    ultimately show ?thesis using s' that valid_random_const0
      by (intro exI[of _ "RestartClick (\<lambda>_. 0)"] exI[of _ s']) (simp add: spec_trans.restart)
  qed
  from assms(2) show ?thesis
  proof cases
    case edit_start then show ?thesis by (intro start) simp_all
  next
    case edit_start_finish then show ?thesis by (intro fin) simp_all
  next
    case edit_finish then show ?thesis by (intro fin) simp_all
  next
    case restart then show ?thesis by (intro reset) simp_all
  qed (use stay in auto)
qed

end
