(* ===== verification/Spec2Isabelle.thy ===== *)
theory Spec2Isabelle
  imports Phase_Machine
begin

text \<open>
  Verification development of MiniType, the ten-word typing test of src/script.js.

  \<^bold>\<open>The program.\<close> One script drives one page. \<open>pickWords\<close> draws
  \<open>WORD_COUNT\<close> = 10 words from a built-in word bank. \<open>startNewTest\<close> joins them
  into the target text, renders them and resets the state. The \<open>input\<close> handler
  re-classifies every character on each edit (\<open>updateVisuals\<close>). It records the
  start time on the first non-empty input, and it finishes the test (\<open>finishTest\<close>:
  elapsed time, words per minute, accuracy) when the input with trailing white space
  removed equals the target. The \<open>keydown\<close> handler is meant to finish on Enter. The
  \<open>paste\<close> handler cancels pastes. The restart button runs \<open>startNewTest\<close> again,
  and the script runs it once on load.

  \<^bold>\<open>Theories.\<close>
  \<^item> \<open>Prelude\<close>: the model's types. JavaScript strings are \<open>char list\<close>,
    timestamps are \<open>rat\<close>, and a source of \<open>Math.random()\<close> values is
    \<open>nat \<Rightarrow> rat\<close> (\<open>valid_random\<close>: every value lies in [0, 1)). It also holds
    shared list lemmas.
  \<^item> \<open>Js_Builtins\<close>: the built-ins the script calls, after the ECMAScript
    specification. These are \<open>trimEnd\<close>, \<open>trim\<close>, \<open>split_ws\<close> (\<open>split(/\s+/)\<close>),
    \<open>js_split\<close>, \<open>js_join\<close>, \<open>js_splice1\<close> (\<open>splice(i, 1)\<close> with its index
    clamping), \<open>js_char_at\<close> (\<open>s[i] || ''\<close>), \<open>js_round\<close>, \<open>int_to_js\<close> and
    \<open>to_fixed\<close>.
    \<^item> The scores are JavaScript numbers \<open>js_number\<close>: a finite value, Infinity,
      -Infinity or NaN. \<open>js_div\<close> divides as ECMAScript does, giving Infinity for
      \<open>10 / 0\<close> and NaN for \<open>0 / 0\<close>, so the scorer's guards matter in the model.
      \<open>num_to_fixed\<close> and \<open>round_text\<close> print non-finite values as JavaScript
      does.
    \<^item> Its lemmas are the library facts the components use: the shape and value
      of \<open>toFixed\<close>'s digits, \<open>js_split_join\<close>, \<open>trimEnd\<close> facts, and the
      multiset behaviour of \<open>splice\<close>. It states no claim of its own.
  \<^item> \<open>Word_Source\<close> (lines 3, 13--17, 24--32): \<open>WORD_COUNT\<close>, \<open>WORD_BANK\<close> (the
    literal evaluated to its 51 words) and \<open>pickWords\<close> as the loop \<open>pick_loop\<close>.
    It proves that the loop runs exactly \<open>WORD_COUNT\<close> iterations for any random
    values, and that the draw takes ten defined words without replacement. It also
    proves that the words need not be distinct, because the bank lists "work" twice.
  \<^item> \<open>Render\<close> (lines 34--55, 80--95): the \<open>#words\<close> element as a list of word spans,
    each a list of character spans (text and class). It holds \<open>renderWords\<close> and
    \<open>updateVisuals\<close>, whose loop over \<open>querySelectorAll('.char')\<close> is
    \<open>restyle_words\<close> with a running index. It proves that the rendered classes are
    the specification's per-character classification (\<open>rendered_classification\<close>),
    and that \<open>updateVisuals\<close> changes only classes and ignores the old ones.
  \<^item> \<open>Scoring\<close> (lines 71--78, 100--110): \<open>countCorrectChars\<close> as the loop
    \<open>count_loop\<close>, and the arithmetic of \<open>finishTest\<close> (\<open>elapsed_of\<close>,
    \<open>wpm_of\<close>, \<open>accuracy_of\<close>, \<open>score\<close>) on \<open>js_number\<close>, with the texts it
    writes. It proves that the loop equals the specification's count, and that the
    accuracy is always a finite number in [0, 100]. It also proves that the guards
    \<open>minutes > 0\<close> and \<open>typed.length > 0\<close> give 0 where the unguarded division
    gives Infinity or NaN. Two more claims:
    \<^item> accuracy is 100 exactly when the typed text is a non-empty prefix of the
      target (\<open>accuracy_100_iff_prefix\<close>);
    \<^item> the rate text reads back as \<open>Math.round(600 / elapsed)\<close>
      (\<open>wpm_display_value\<close>).
  \<^item> \<open>Session\<close> (lines 19--22, 57--69, 97--142): the program's code for the page.
    \<^item> The record \<open>page\<close> holds the module state and the DOM fields the handlers
      write.
    \<^item> The handlers are \<open>startNewTest\<close>, \<open>finishTest\<close>, \<open>input_handler\<close> and
      \<open>keydown_handler\<close>.
    \<^item> The datatype \<open>event\<close> lists the user and clock events, and \<open>step\<close> and
      \<open>run\<close> apply them.
    \<^item> Its lemmas give the handlers' results on each branch.
    \<^item> Its claims need no reachability. A finished test stays latched. A restart
      always succeeds for valid random values. A truthy start time is kept. A start
      time of exactly 0 is overwritten by the next non-empty edit
      (\<open>start_time_zero_overwritten\<close>), because \<open>!startTime\<close> treats 0 as unset.
  \<^item> \<open>Reachability\<close> (line 145 and the environment of section 6 of the
    specification).
    \<^item> The inductive \<open>reachable s c\<close> holds when page \<open>s\<close> is reachable from the
      initial \<open>startNewTest()\<close>, with a monotonic clock whose last reading was
      \<open>c\<close>.
    \<^item> Every step preserves the invariant \<open>page_inv\<close>, proved by rule induction
      (\<open>reachable_page_inv\<close>). Its parts cover the target and the shape of
      \<open>#words\<close>, the running display, the clock, the start time and the latched
      result.
    \<^item> On top of the invariant it proves:
      \<^item> the displayed accuracy of a finished test is always 100.0%;
      \<^item> the Enter handler never changes a reachable page;
      \<^item> what an exact-match edit writes (\<open>exact_match_finishes\<close>);
      \<^item> typing the target one character at a time finishes exactly at the last
        keystroke, timed from the first one (\<open>type_target_keystrokes\<close>);
      \<^item> the time and rate displays are well-formed decimal numerals;
      \<^item> \<open>#words\<close> always has the shape \<open>renderWords\<close> built.
  \<^item> \<open>Phase_Machine\<close>: the specification's state machine, as the abstract \<open>phase\<close>
    of a page and the inductive relation \<open>spec_trans\<close>.
    \<^item> \<open>step_refines_spec\<close> shows that every program step follows an allowed
      transition.
    \<^item> \<open>phase_transitions_complete\<close> shows the converse: from every reachable page,
      each allowed transition is taken by some allowed event. In particular FINISHED
      is always one allowed event away: this is the liveness of the test.
  \<^item> This theory: concrete runs of the page (\<open>demo_start\<close>, \<open>demo_running\<close>,
    \<open>demo_zero\<close>, \<open>demo_finished\<close>), and a witness for each claim with a hypothesis.
    The witnesses evaluate the claims on these reachable pages. \<open>demo_zero\<close> is a
    reachable page whose start time is 0.

  \<^bold>\<open>Modelling choices.\<close>
  \<^item> Handlers are total functions on \<open>page\<close>. The only error is the
    \<open>TypeError\<close> that \<open>renderWords\<close> throws on an \<open>undefined\<close> word, which is
    the \<open>Inl\<close> branch of \<open>startNewTest\<close>. It is never taken for valid random
    values (\<open>restart_succeeds\<close>).
  \<^item> \<open>performance.now()\<close> readings and \<open>Math.random()\<close> values are arguments of
    the events, constrained only as the environment promises: the clock never
    decreases (\<open>event_ok\<close>) and random values lie in [0, 1).
  \<^item> Loops are \<open>function\<close>s with a measure, because every loop of the script is
    bounded. No fuel is needed.
  \<^item> Finite numbers are exact rationals. This is faithful for the integers and for
    the comparisons the script makes. For the scores it is the real value that
    floating point approximates. Division by zero gives Infinity or NaN as in
    JavaScript. No signed zero arises, because the script divides only by values
    it has compared with 0.
  \<^item> A character span has one class. \<open>classList.remove\<close> followed by one
    \<open>classList.add\<close> (lines 86--93) is the assignment of that class.

  \<^bold>\<open>Not modelled.\<close>
  \<^item> Element lookup (lines 4--10), \<open>input.focus()\<close>, and the browser's painting
    of classes and of the hidden statistics: these are page I/O, not program logic.
  \<^item> \<open>WORD_BANK.slice()\<close>, which copies the array: the model is a value, so the
    copy is the identity.
  \<^item> The HTML and CSS, which are not under src/.
  \<^item> \<open>toFixed\<close> and number printing at and above 10^21. IEEE rounding is not
    modelled either: JavaScript prints \<open>(1.005).toFixed(2)\<close> as 1.00, the model as
    1.01.
  \<^item> The partially built \<open>#words\<close> content left when \<open>renderWords\<close> throws. That
    path is unreachable for valid random values (\<open>restart_succeeds\<close>).
  \<^item> Distinct readings of the two \<open>performance.now()\<close> calls at lines 119 and 124.
    An edit carries one start reading for both. The second call runs only when
    the first returned 0, so the model covers every run whose clock never reads
    exactly 0 twice in one handler.
  \<^item> Strings are lists of 8-bit characters. White space is the part of
    JavaScript's set below 256. The code points U+1680, U+2000--U+200A,
    U+2028/9, U+202F, U+205F, U+3000 and U+FEFF are outside the model. They do not
    occur in the word bank.
\<close>

section \<open>Concrete reachable pages\<close>

definition blank_page :: page where
  "blank_page = \<lparr>targetWords = [], targetText = [], startTime = None, ended = False,
     input_value = [], words_el = [], stats_hidden = False, time_text = [], wpm_text = [],
     acc_text = []\<rparr>"

definition demo_words :: "js_string list" where
  "demo_words = [''time'', ''person'', ''year'', ''way'', ''day'', ''thing'', ''man'', ''world'',
                 ''life'', ''hand'']"

definition demo_target :: js_string where
  "demo_target = ''time person year way day thing man world life hand''"

definition demo_start :: page where
  "demo_start = blank_page\<lparr>targetWords := demo_words, targetText := demo_target,
     words_el := renderWords demo_words, input_value := [], startTime := None, ended := False,
     stats_hidden := True, time_text := ''0.00'', wpm_text := ''0'', acc_text := ''0%''\<rparr>"

definition demo_finished :: page where
  "demo_finished = input_handler 1000 3000 (demo_start\<lparr>input_value := demo_target\<rparr>)"

definition demo_running :: page where
  "demo_running = input_handler 1000 1000 (demo_start\<lparr>input_value := ''t''\<rparr>)"

definition demo_zero :: page where
  "demo_zero = input_handler 0 0 (demo_start\<lparr>input_value := ''t''\<rparr>)"

section \<open>Evaluation of the concrete pages\<close>

lemma pickWords_zero: "those (pickWords (\<lambda>_. 0)) = Some demo_words"
  by (simp add: pickWords_def WORD_BANK_eq pick_loop.simps WORD_COUNT_def js_splice1_def
      js_first_def demo_words_def)

lemma join_demo_words: "js_join '' '' demo_words = demo_target"
  by (simp add: demo_words_def demo_target_def)

lemma demo_target_trimmed: "trimEnd demo_target = demo_target"
  by (simp add: demo_target_def trimEnd_def is_js_space_def)

lemma demo_target_ne: "demo_target \<noteq> []"
  by (simp add: demo_target_def)

lemma startNewTest_demo: "startNewTest (\<lambda>_. 0) blank_page = Inr demo_start"
  by (simp add: startNewTest_def pickWords_zero join_demo_words demo_start_def)

lemma demo_start_reachable: "reachable demo_start 0"
  using reachable.init[OF valid_random_const0 startNewTest_demo] .

lemma demo_start_fields:
  "\<not> ended demo_start" "targetText demo_start = demo_target" "startTime demo_start = None"
  by (simp_all add: demo_start_def)

lemma step_demo_edit: "step (Edit demo_target 1000 3000) demo_start = Inr demo_finished"
  by (simp add: demo_finished_def)

lemma demo_finished_reachable: "reachable demo_finished 3000"
proof -
  have "event_ok 0 (Edit demo_target 1000 3000)" by simp
  from reachable.step[OF demo_start_reachable this step_demo_edit] show ?thesis by simp
qed

lemma demo_start_t:
  "input_handler t t (demo_start\<lparr>input_value := ''t''\<rparr>)
     = demo_start\<lparr>input_value := ''t'', startTime := Some t,
         words_el := updateVisuals demo_target ''t'' (words_el demo_start)\<rparr>"
  by (subst input_handler_nomatch)
     (simp_all add: demo_start_fields start_after_def js_truthy_time_def demo_target_def
       trimEnd_def is_js_space_def)

lemma demo_running_fields: "startTime demo_running = Some 1000" "\<not> ended demo_running"
  "targetText demo_running = demo_target"
  by (simp_all add: demo_running_def demo_start_t demo_start_fields)

lemma demo_zero_reachable: "reachable demo_zero 0"
proof -
  have "event_ok 0 (Edit ''t'' 0 0)" by simp
  moreover have "step (Edit ''t'' 0 0) demo_start = Inr demo_zero" by (simp add: demo_zero_def)
  ultimately show ?thesis using reachable.step[OF demo_start_reachable] by fastforce
qed

lemma demo_zero_fields: "startTime demo_zero = Some 0" "\<not> ended demo_zero"
  by (simp_all add: demo_zero_def demo_start_t demo_start_fields)

lemma score_demo:
  "time_text_of (score demo_target (Some 1000) 3000 demo_target) = ''2.00''"
  "wpm_text_of (score demo_target (Some 1000) 3000 demo_target) = ''300''"
  "acc_text_of (score demo_target (Some 1000) 3000 demo_target) = ''100.0%''"
  unfolding demo_target_def by code_simp+

lemma demo_finished_fields:
  "ended demo_finished" "\<not> stats_hidden demo_finished" "startTime demo_finished = Some 1000"
  "input_value demo_finished = demo_target"
  "time_text demo_finished = ''2.00''" "wpm_text demo_finished = ''300''"
  "acc_text demo_finished = ''100.0%''"
proof -
  let ?s0 = "demo_start\<lparr>input_value := demo_target\<rparr>"
  have m: "demo_finished = finishTest demo_target 3000
      (?s0\<lparr>startTime := start_at_finish 1000 ?s0,
         words_el := updateVisuals demo_target demo_target (words_el demo_start)\<rparr>)"
    unfolding demo_finished_def
    by (rule trans[OF input_handler_match]) (simp_all add: demo_start_fields demo_target_trimmed)
  have st: "start_at_finish 1000 ?s0 = Some 1000"
    by (simp add: start_at_finish_def start_after_def js_truthy_time_def demo_start_fields demo_target_ne)
  show "ended demo_finished" "\<not> stats_hidden demo_finished" "startTime demo_finished = Some 1000"
    "input_value demo_finished = demo_target"
    "time_text demo_finished = ''2.00''" "wpm_text demo_finished = ''300''"
    "acc_text demo_finished = ''100.0%''"
    by (simp_all add: m st finishTest_unended demo_start_fields score_demo)
qed

section \<open>Witnesses\<close>

theorem finished_accuracy_100_witness:
  "reachable demo_finished 3000 \<and> ended demo_finished \<and> acc_text demo_finished = ''100.0%''"
  using finished_accuracy_100[OF demo_finished_reachable demo_finished_fields(1)]
    demo_finished_reachable demo_finished_fields(1) by blast

theorem keydown_never_changes_witness:
  "reachable demo_start 0 \<and> keydown_handler ''Enter'' 5 demo_start = demo_start"
  using keydown_never_changes[OF demo_start_reachable] demo_start_reachable by blast

theorem step_refines_spec_witness:
  "reachable demo_start 0 \<and> event_ok 0 (Edit demo_target 1000 3000)
   \<and> step (Edit demo_target 1000 3000) demo_start = Inr demo_finished
   \<and> spec_trans (phase demo_start) (Edit demo_target 1000 3000) (phase demo_finished)"
proof -
  have e: "event_ok 0 (Edit demo_target 1000 3000)" by simp
  show ?thesis using step_refines_spec[OF demo_start_reachable e step_demo_edit]
    demo_start_reachable e step_demo_edit by blast
qed

theorem finish_latched_witness:
  "ended demo_finished \<and> \<not> is_restart (Edit ''x'' 4000 4000)
   \<and> step (Edit ''x'' 4000 4000) demo_finished = Inr (demo_finished\<lparr>input_value := ''x''\<rparr>)
   \<and> ended (demo_finished\<lparr>input_value := ''x''\<rparr>)
   \<and> time_text (demo_finished\<lparr>input_value := ''x''\<rparr>) = time_text demo_finished
   \<and> wpm_text (demo_finished\<lparr>input_value := ''x''\<rparr>) = wpm_text demo_finished
   \<and> acc_text (demo_finished\<lparr>input_value := ''x''\<rparr>) = acc_text demo_finished"
proof -
  have st: "step (Edit ''x'' 4000 4000) demo_finished = Inr (demo_finished\<lparr>input_value := ''x''\<rparr>)"
    using demo_finished_fields(1) by (simp add: input_handler_ended)
  have r: "\<not> is_restart (Edit ''x'' 4000 4000)" by simp
  show ?thesis using finish_latched[OF demo_finished_fields(1) r st] demo_finished_fields(1) r st
    by blast
qed

theorem running_display_classifies_witness:
  "reachable demo_start 0 \<and> \<not> ended demo_start
   \<and> map span_class (char_nodes (words_el demo_start))
       = map (classify (targetText demo_start) (input_value demo_start)) [0..<length (targetText demo_start)]"
  using running_display_classifies[OF demo_start_reachable demo_start_fields(1)]
    demo_start_reachable demo_start_fields(1) by blast

theorem finished_scores_consistent_witness:
  "reachable demo_finished 3000 \<and> ended demo_finished
   \<and> (\<exists>e. 0 \<le> e \<and> time_text demo_finished = to_fixed 2 e
        \<and> wpm_text demo_finished = round_text (wpm_of e))"
  using finished_scores_consistent[OF demo_finished_reachable demo_finished_fields(1)]
    demo_finished_reachable demo_finished_fields(1) by blast

theorem restart_resets_witness:
  "startNewTest (\<lambda>_. 0) blank_page = Inr demo_start
   \<and> phase demo_start = NOT_STARTED \<and> input_value demo_start = [] \<and> stats_hidden demo_start
   \<and> time_text demo_start = ''0.00'' \<and> wpm_text demo_start = ''0'' \<and> acc_text demo_start = ''0%''
   \<and> list_all (\<lambda>sp. span_class sp = Pending) (char_nodes (words_el demo_start))"
  using restart_resets[OF startNewTest_demo] startNewTest_demo by (simp add: list_all_iff)

theorem restart_succeeds_witness:
  "valid_random (\<lambda>_. 0) \<and> (\<exists>s'. startNewTest (\<lambda>_. 0) blank_page = Inr s')"
  using restart_succeeds[OF valid_random_const0, of blank_page] valid_random_const0 by blast

theorem target_split_roundtrip_witness:
  "reachable demo_start 0 \<and> js_split CHR '' '' (targetText demo_start) = targetWords demo_start
   \<and> length (targetWords demo_start) = WORD_COUNT"
  using target_split_roundtrip[OF demo_start_reachable] demo_start_reachable by blast

theorem wpm_of_nonpositive_witness: "(0::rat) \<le> 0 \<and> wpm_of 0 = Num 0"
  using wpm_of_nonpositive[of 0] by simp

theorem exact_match_finishes_witness:
  "reachable demo_start 0 \<and> \<not> ended demo_start \<and> trimEnd demo_target = targetText demo_start
   \<and> step (Edit demo_target 1000 3000) demo_start = Inr demo_finished
   \<and> startTime demo_finished = Some 1000 \<and> ended demo_finished \<and> \<not> stats_hidden demo_finished
   \<and> time_text demo_finished = to_fixed 2 ((3000 - js_time (startTime demo_finished)) / 1000)
   \<and> wpm_text demo_finished = round_text (wpm_of ((3000 - js_time (startTime demo_finished)) / 1000))
   \<and> acc_text demo_finished = ''100.0%''"
proof -
  have t: "trimEnd demo_target = targetText demo_start"
    using demo_target_trimmed demo_start_fields(2) by simp
  show ?thesis
    using exact_match_finishes[OF demo_start_reachable demo_start_fields(1) t step_demo_edit]
      demo_start_reachable demo_start_fields t step_demo_edit by (simp add: js_truthy_time_def)
qed

theorem typed_text_has_start_witness:
  "reachable demo_finished 3000 \<and> (ended demo_finished \<or> input_value demo_finished \<noteq> [])
   \<and> (\<exists>st. startTime demo_finished = Some st \<and> st \<le> 3000)"
  using typed_text_has_start[OF demo_finished_reachable] demo_finished_reachable demo_finished_fields(1)
  by blast

theorem start_time_kept_witness:
  "js_truthy_time (startTime demo_running) \<and> \<not> is_restart (Edit ''ti'' 2000 2000)
   \<and> step (Edit ''ti'' 2000 2000) demo_running = Inr (input_handler 2000 2000 (demo_running\<lparr>input_value := ''ti''\<rparr>))
   \<and> startTime (input_handler 2000 2000 (demo_running\<lparr>input_value := ''ti''\<rparr>)) = Some 1000"
proof -
  have tr: "js_truthy_time (startTime demo_running)" by (simp add: demo_running_fields js_truthy_time_def)
  have r: "\<not> is_restart (Edit ''ti'' 2000 2000)" by simp
  have st: "step (Edit ''ti'' 2000 2000) demo_running = Inr (input_handler 2000 2000 (demo_running\<lparr>input_value := ''ti''\<rparr>))"
    by simp
  show ?thesis using start_time_kept[OF tr r st] tr r st demo_running_fields(1) by simp
qed

theorem words_el_shape_witness:
  "reachable demo_start 0 \<and> length (words_el demo_start) = WORD_COUNT
   \<and> map span_text (words_el demo_start ! 0) = map (\<lambda>c. [c]) (targetWords demo_start ! 0) @ ['' '']"
  using words_el_shape[OF demo_start_reachable] demo_start_reachable by (simp add: WORD_COUNT_def)

theorem phase_transitions_complete_witness:
  "reachable demo_start 0 \<and> spec_trans (phase demo_start) (Edit ''t'' 0 0) RUNNING
   \<and> (\<exists>e s'. event_ok 0 e \<and> spec_trans (phase demo_start) e RUNNING \<and> step e demo_start = Inr s'
        \<and> phase s' = RUNNING \<and> reachable s' (clock_after 0 e))"
proof -
  have t: "spec_trans (phase demo_start) (Edit ''t'' 0 0) RUNNING"
    using demo_start_fields by (simp add: phase_def spec_trans.edit_start)
  show ?thesis using phase_transitions_complete[OF demo_start_reachable t] demo_start_reachable t
    by blast
qed

theorem type_target_keystrokes_witness:
  "reachable demo_start 0 \<and> \<not> ended demo_start \<and> startTime demo_start = None
   \<and> 0 < (\<lambda>k::nat. of_nat k * 100 :: rat) 1
   \<and> (\<exists>s'. run (typing_events (targetText demo_start) (\<lambda>k. of_nat k * 100)) demo_start = Inr s'
        \<and> ended s' \<and> startTime s' = Some 100
        \<and> time_text s' = to_fixed 2 ((of_nat (length (targetText demo_start)) * 100 - 100) / 1000)
        \<and> acc_text s' = ''100.0%'')"
  using type_target_keystrokes[OF demo_start_reachable demo_start_fields(1) demo_start_fields(3),
      of "\<lambda>k. of_nat k * 100"] demo_start_reachable demo_start_fields(1,3) by simp

theorem finished_display_decimal_witness:
  "reachable demo_finished 3000 \<and> ended demo_finished
   \<and> (\<exists>ip fp. time_text demo_finished = ip @ CHR ''.'' # fp \<and> ip \<noteq> [] \<and> length fp = 2
        \<and> (\<forall>ch \<in> set (ip @ fp). (48::nat) \<le> of_char ch \<and> of_char ch \<le> (57::nat)))
   \<and> wpm_text demo_finished \<noteq> []
   \<and> list_all (\<lambda>ch. (48::nat) \<le> of_char ch \<and> of_char ch \<le> (57::nat)) (wpm_text demo_finished)"
  using finished_display_decimal[OF demo_finished_reachable demo_finished_fields(1)]
    demo_finished_reachable demo_finished_fields(1) by (simp add: list_all_iff)

theorem wpm_display_value_witness:
  "0 < elapsed_of (Some 1000) 3000
   \<and> dec_value (wpm_text_of (score ''a'' (Some 1000) 3000 ''a'')) = nat (js_round (600 / elapsed_of (Some 1000) 3000))"
proof -
  have e: "0 < elapsed_of (Some 1000) 3000" by (simp add: elapsed_of_def js_time_def)
  show ?thesis using wpm_display_value[OF e, of "''a''" "''a''"] e by simp
qed

theorem start_time_zero_overwritten_witness:
  "reachable demo_zero 0 \<and> startTime demo_zero = Some 0 \<and> \<not> ended demo_zero \<and> ''ti'' \<noteq> []
   \<and> step (Edit ''ti'' 5 5) demo_zero = Inr (input_handler 5 5 (demo_zero\<lparr>input_value := ''ti''\<rparr>))
   \<and> startTime (input_handler 5 5 (demo_zero\<lparr>input_value := ''ti''\<rparr>)) = Some 5"
proof -
  have st: "step (Edit ''ti'' 5 5) demo_zero = Inr (input_handler 5 5 (demo_zero\<lparr>input_value := ''ti''\<rparr>))"
    by simp
  have v: "''ti'' \<noteq> []" by simp
  show ?thesis using start_time_zero_overwritten[OF demo_zero_fields v st] demo_zero_reachable
    demo_zero_fields v st by simp
qed

end
